theory Spec2Isabelle
  imports Main "HOL-Library.AList" "HOL-Library.Multiset"
begin

section \<open>Data model of \<open>main.py\<close>\<close>

text \<open>
  The bot keeps one dictionary, \<open>bot_data\<close>, with the keys \<open>streams\<close>,
  \<open>user_timezones\<close>, \<open>announcement_channel_id\<close> and \<open>last_announced_date_utc\<close>.
  A stream is a dictionary with the string fields \<open>datetime\<close>, \<open>original_timezone\<close>
  and \<open>description\<close>. Python dictionaries keep insertion order and assignment to an
  existing key replaces the value in place, which is what \<open>AList.update\<close> does on an
  association list. JSON \<open>null\<close> is \<open>None\<close>.
\<close>

record stream =
  datetime :: string
  original_timezone :: string
  description :: string

record bot_data =
  streams :: "stream list"
  user_timezones :: "(string \<times> string) list"
  announcement_channel_id :: "int option"
  last_announced_date_utc :: "string option"

subsection \<open>The libraries the code calls\<close>

text \<open>
  \<open>datetime.strptime\<close>, \<open>pytz.timezone\<close> and \<open>tzinfo.localize\<close> are library code, not
  code of this repository, so they are parameters of the model:
  \<^item> \<open>strptime lib s\<close> is \<open>datetime.strptime(s, "%Y-%m-%d %H:%M")\<close>; \<open>None\<close> stands for
    the \<open>ValueError\<close> it raises on a string that does not match;
  \<^item> \<open>timezone lib z\<close> says whether \<open>pytz.timezone(z)\<close> returns a zone; \<open>False\<close> stands
    for \<open>UnknownTimeZoneError\<close>;
  \<^item> \<open>localize lib z d\<close> is the instant of \<open>pytz.timezone(z).localize(d)\<close>, in whole
    seconds since the epoch: the format has no seconds field and zone offsets are whole
    seconds, so \<open>int(stream_dt_localized.timestamp())\<close> is this number exactly;
  \<^item> \<open>isoformat lib n\<close> is \<open>str\<close> of the calendar date that is day \<open>n\<close> after
    1970-01-01.
  Each of them is a function: the same argument gives the same answer on every call.
\<close>

datatype naive = Naive (year: int) (month: int) (day: int) (hour: int) (minute: int)

record pylib =
  strptime :: "string \<Rightarrow> naive option"
  timezone :: "string \<Rightarrow> bool"
  localize :: "string \<Rightarrow> naive \<Rightarrow> int"
  isoformat :: "int \<Rightarrow> string"

text \<open>
  What one invocation of a handler sees of the outside world. \<open>clock env n\<close> is the value
  of the \<open>n\<close>-th call of \<open>datetime.now(pytz.utc)\<close> made during the invocation (counted
  from 0), in microseconds since the epoch. \<open>get_channel env c\<close> is
  \<open>client.get_channel(c)\<close>, and \<open>channel_send env c m\<close> is the outcome of
  \<open>channel.send(m)\<close> on the announcement channel: \<open>None\<close> when the message is delivered,
  the exception otherwise.
\<close>

datatype channel_kind = TextChannel | OtherChannel

datatype send_exc = Forbidden | OtherException

datatype message =
    NoUpcomingStreams
  | DailyScheduleUpdate "(int \<times> string) list"
  | UpcomingSchedule "(int \<times> string) list"
  | TimezoneUsage
  | TimezoneSet string
  | InvalidTimezone string
  | AddstreamUsage
  | StreamAdded stream
  | InvalidDateFormat
  | InvalidOriginalTimezone string
  | RemovestreamUsage
  | RemovedStream stream
  | InvalidStreamIndex
  | NoStreamsStored
  | AllStoredStreams "(nat \<times> stream) list"
  | SetannouncechannelUsage
  | AnnounceChannelSet int
  | ChannelInvalid int
  | UnknownCommand string

record env =
  clock :: "nat \<Rightarrow> int"
  get_channel :: "int \<Rightarrow> channel_kind option"
  channel_send :: "int \<Rightarrow> message \<Rightarrow> send_exc option"

subsection \<open>Effects\<close>

text \<open>
  Everything a handler does besides changing \<open>bot_data\<close> is recorded, in order, in a
  list of effects: a line printed to the log, a call of \<open>save_data\<close> with the snapshot it
  writes, a message delivered to the announcement channel, and a reply delivered on
  \<open>message.channel\<close>. Writing the file and replying to a command are taken to succeed.
\<close>

datatype loc_error = ValueError | UnknownTimeZoneError

datatype log_msg =
    WarnCleanup stream loc_error
  | CleanedUp nat
  | NoOldStreams
  | NoAnnouncementChannel
  | AlreadyAnnounced string
  | ChannelNotFound int
  | SkipMalformedAnnounce stream
  | SkipUnknownTzAnnounce stream
  | NoSendPermission int
  | SendError
  | SkipMalformed stream
  | SkipUnknownTz stream

datatype effect =
    Print log_msg
  | Save bot_data
  | Send int message
  | Reply message

section \<open>Timezone utilities\<close>

text \<open>Python's \<open>str\<close> of an integer, for the key \<open>str(user_id)\<close>.\<close>

definition digit_char :: "nat \<Rightarrow> char" where
  "digit_char n = char_of (48 + n)"

function str_nat :: "nat \<Rightarrow> string" where
  "str_nat n = (if n < 10 then [digit_char n] else str_nat (n div 10) @ [digit_char (n mod 10)])"
  by pat_completeness auto
termination
  by (relation "measure id") auto

declare str_nat.simps [simp del]

definition str_int :: "int \<Rightarrow> string" where
  "str_int i = (if i < 0 then CHR ''-'' # str_nat (nat (- i)) else str_nat (nat i))"

definition get_user_timezone :: "bot_data \<Rightarrow> int \<Rightarrow> string" where
  "get_user_timezone bd user_id =
     (case map_of (user_timezones bd) (str_int user_id) of
        None \<Rightarrow> ''UTC''
      | Some z \<Rightarrow> z)"

definition set_user_timezone :: "pylib \<Rightarrow> int \<Rightarrow> string \<Rightarrow> bot_data \<Rightarrow> bot_data \<times> effect list \<times> bool" where
  "set_user_timezone lib user_id timezone_name bd =
     (if timezone lib timezone_name
      then (let bd' = bd\<lparr>user_timezones := AList.update (str_int user_id) timezone_name (user_timezones bd)\<rparr>
            in (bd', [Save bd'], True))
      else (bd, [], False))"

section \<open>Localizing a stored stream\<close>

text \<open>
  The three statements at the head of every \<open>try\<close> block that looks at a stream:
  parse the \<open>datetime\<close> field, look the zone up, localize. The parse comes first, so a
  stream with both a bad date and a bad zone raises \<open>ValueError\<close>.
\<close>

definition localize_stream :: "pylib \<Rightarrow> stream \<Rightarrow> loc_error + int" where
  "localize_stream lib st =
     (case strptime lib (datetime st) of
        None \<Rightarrow> Inl ValueError
      | Some stream_dt_naive \<Rightarrow>
          if timezone lib (original_timezone st)
          then Inr (localize lib (original_timezone st) stream_dt_naive)
          else Inl UnknownTimeZoneError)"

text \<open>
  \<open>stream_dt_localized > now_utc\<close>: the stream's instant is in whole seconds, the clock
  reading in microseconds.
\<close>

definition later_than :: "int \<Rightarrow> int \<Rightarrow> bool" where
  "later_than secs now_utc = (now_utc < secs * 1000000)"

section \<open>\<open>clean_old_streams\<close>\<close>

text \<open>
  One pass of the loop body over a stream, on the loop's variables
  \<open>(updated_streams, removed_count)\<close> and the lines printed so far.
\<close>

definition clean_step :: "pylib \<Rightarrow> int \<Rightarrow> stream \<Rightarrow> stream list \<times> nat \<times> effect list \<Rightarrow> stream list \<times> nat \<times> effect list" where
  "clean_step lib now_utc st acc =
     (case acc of (updated_streams, removed_count, out) \<Rightarrow>
        (case localize_stream lib st of
           Inr secs \<Rightarrow>
             if later_than secs now_utc
             then (updated_streams @ [st], removed_count, out)
             else (updated_streams, removed_count + 1, out)
         | Inl e \<Rightarrow> (updated_streams @ [st], removed_count, out @ [Print (WarnCleanup st e)])))"

definition clean_old_streams_at :: "pylib \<Rightarrow> int \<Rightarrow> bot_data \<Rightarrow> bot_data \<times> effect list" where
  "clean_old_streams_at lib now_utc bd =
     (case fold (clean_step lib now_utc) (streams bd) ([], 0, []) of
        (updated_streams, removed_count, out) \<Rightarrow>
          if removed_count > 0
          then (let bd' = bd\<lparr>streams := updated_streams\<rparr>
                in (bd', out @ [Save bd', Print (CleanedUp removed_count)]))
          else (bd, out @ [Print NoOldStreams]))"

text \<open>
  \<open>clean_old_streams\<close> reads the clock once, on its first line; \<open>k\<close> is the number of
  clock readings the calling handler has made before.
\<close>

definition clean_old_streams :: "pylib \<Rightarrow> env \<Rightarrow> nat \<Rightarrow> bot_data \<Rightarrow> bot_data \<times> effect list" where
  "clean_old_streams lib ev k bd = clean_old_streams_at lib (clock ev k) bd"

section \<open>The upcoming list\<close>

text \<open>
  The loop that builds \<open>upcoming_streams\<close> is written twice in the source, in the
  announcer and in the \<open>schedule\<close> command, with the same body but for the text of the
  two lines it prints; \<open>on_value_error\<close> and \<open>on_unknown_tz\<close> are those two lines.
  An entry is the pair \<open>(unix_timestamp, description)\<close>.
\<close>

definition upcoming_step :: "pylib \<Rightarrow> int \<Rightarrow> (stream \<Rightarrow> log_msg) \<Rightarrow> (stream \<Rightarrow> log_msg) \<Rightarrow> stream \<Rightarrow> (int \<times> string) list \<times> effect list \<Rightarrow> (int \<times> string) list \<times> effect list" where
  "upcoming_step lib now_utc on_value_error on_unknown_tz st acc =
     (case acc of (upcoming_streams, out) \<Rightarrow>
        (case localize_stream lib st of
           Inr unix_timestamp \<Rightarrow>
             if later_than unix_timestamp now_utc
             then (upcoming_streams @ [(unix_timestamp, description st)], out)
             else (upcoming_streams, out)
         | Inl ValueError \<Rightarrow> (upcoming_streams, out @ [Print (on_value_error st)])
         | Inl UnknownTimeZoneError \<Rightarrow> (upcoming_streams, out @ [Print (on_unknown_tz st)])))"

definition upcoming_loop :: "pylib \<Rightarrow> int \<Rightarrow> (stream \<Rightarrow> log_msg) \<Rightarrow> (stream \<Rightarrow> log_msg) \<Rightarrow> stream list \<Rightarrow> (int \<times> string) list \<times> effect list" where
  "upcoming_loop lib now_utc on_value_error on_unknown_tz sts =
     fold (upcoming_step lib now_utc on_value_error on_unknown_tz) sts ([], [])"

text \<open>
  \<open>upcoming_streams.sort(key=lambda x: x[0])\<close>: Python's sort is stable, and so is
  \<open>sort_key\<close>, so the two give the same list.
\<close>

definition sort_by_timestamp :: "(int \<times> string) list \<Rightarrow> (int \<times> string) list" where
  "sort_by_timestamp upcoming_streams = sort_key fst upcoming_streams"

section \<open>\<open>daily_schedule_announcer\<close>\<close>

text \<open>
  The source has no state variable for the announcer; an invocation ends on one of its
  \<open>return\<close>s, at the end of the function, or with an exception. The outcome names them as
  the specification's state machine does: \<open>Announced\<close> when a message went out and
  \<open>last_announced_date_utc\<close> was set, \<open>Suppressed\<close> on the "already announced" return,
  \<open>Skipped\<close> on the other returns without a message, and \<open>Raised\<close> when an exception
  leaves the function.
\<close>

datatype outcome = Announced | Suppressed | Skipped | Raised send_exc

definition utc_day :: "int \<Rightarrow> int" where
  "utc_day now_utc = now_utc div 86400000000"

text \<open>\<open>str(datetime.now(pytz.utc).date())\<close> on the clock reading \<open>now_utc\<close>.\<close>

definition utc_date_str :: "pylib \<Rightarrow> int \<Rightarrow> string" where
  "utc_date_str lib now_utc = isoformat lib (utc_day now_utc)"

text \<open>\<open>not channel_id\<close>: \<open>None\<close> and \<open>0\<close> are false.\<close>

definition truthy_id :: "int option \<Rightarrow> bool" where
  "truthy_id c = (case c of None \<Rightarrow> False | Some i \<Rightarrow> i \<noteq> 0)"

definition announce :: "pylib \<Rightarrow> env \<Rightarrow> int \<Rightarrow> string \<Rightarrow> bot_data \<Rightarrow> effect list \<Rightarrow> bot_data \<times> effect list \<times> outcome" where
  "announce lib ev channel_id today_utc bd out =
     (case upcoming_loop lib (clock ev 2) SkipMalformedAnnounce SkipUnknownTzAnnounce (streams bd) of
        (upcoming_streams, out2) \<Rightarrow>
          if upcoming_streams = []
          then (case channel_send ev channel_id NoUpcomingStreams of
                  None \<Rightarrow>
                    (let bd' = bd\<lparr>last_announced_date_utc := Some today_utc\<rparr>
                     in (bd', out @ out2 @ [Send channel_id NoUpcomingStreams, Save bd'], Announced))
                | Some e \<Rightarrow> (bd, out @ out2, Raised e))
          else (let msg = DailyScheduleUpdate (sort_by_timestamp upcoming_streams)
                in case channel_send ev channel_id msg of
                     None \<Rightarrow>
                       (let bd' = bd\<lparr>last_announced_date_utc := Some today_utc\<rparr>
                        in (bd', out @ out2 @ [Send channel_id msg, Save bd'], Announced))
                   | Some Forbidden \<Rightarrow>
                       (bd, out @ out2 @ [Print (NoSendPermission channel_id)], Skipped)
                   | Some OtherException \<Rightarrow>
                       (bd, out @ out2 @ [Print SendError], Skipped)))"

definition daily_schedule_announcer :: "pylib \<Rightarrow> env \<Rightarrow> bot_data \<Rightarrow> bot_data \<times> effect list \<times> outcome" where
  "daily_schedule_announcer lib ev bd0 =
     (case clean_old_streams lib ev 0 bd0 of
        (bd, out) \<Rightarrow>
          if \<not> truthy_id (announcement_channel_id bd)
          then (bd, out @ [Print NoAnnouncementChannel], Skipped)
          else (let channel_id = the (announcement_channel_id bd);
                    today_utc = utc_date_str lib (clock ev 1)
                in if last_announced_date_utc bd = Some today_utc
                   then (bd, out @ [Print (AlreadyAnnounced today_utc)], Suppressed)
                   else (case get_channel ev channel_id of
                           None \<Rightarrow> (bd, out @ [Print (ChannelNotFound channel_id)], Skipped)
                         | Some channel \<Rightarrow> announce lib ev channel_id today_utc bd out)))"

section \<open>\<open>on_message\<close>\<close>

text \<open>
  The text of a message is taken to be ASCII. \<open>split_sp\<close> is \<open>str.split(' ')\<close>,
  \<open>join_sp\<close> is \<open>" ".join\<close>, \<open>lower\<close> is \<open>str.lower\<close>, \<open>isdigit\<close> is
  \<open>str.isdigit\<close> and \<open>py_int\<close> is \<open>int\<close> on a string of digits.
\<close>

fun split_sp :: "string \<Rightarrow> string list" where
  "split_sp [] = [[]]"
| "split_sp (c # cs) =
     (if c = CHR '' '' then [] # split_sp cs
      else (case split_sp cs of
              [] \<Rightarrow> [[c]]
            | w # ws \<Rightarrow> (c # w) # ws))"

fun join_sp :: "string list \<Rightarrow> string" where
  "join_sp [] = []"
| "join_sp [w] = w"
| "join_sp (w # ws) = w @ CHR '' '' # join_sp ws"

definition lower_char :: "char \<Rightarrow> char" where
  "lower_char c =
     (let n = (of_char c :: nat) in if 65 \<le> n \<and> n \<le> 90 then char_of (n + 32) else c)"

definition lower :: "string \<Rightarrow> string" where
  "lower s = map lower_char s"

definition is_digit_char :: "char \<Rightarrow> bool" where
  "is_digit_char c = (let n = (of_char c :: nat) in 48 \<le> n \<and> n \<le> 57)"

definition isdigit :: "string \<Rightarrow> bool" where
  "isdigit s = (s \<noteq> [] \<and> list_all is_digit_char s)"

definition py_int :: "string \<Rightarrow> int" where
  "py_int s = foldl (\<lambda>acc c. acc * 10 + (int (of_char c) - 48)) 0 s"

record message_in =
  from_self :: bool
  author_id :: int
  content :: string

text \<open>The \<open>schedule\<close> command: prune, read the clock again, list.\<close>

definition schedule_command :: "pylib \<Rightarrow> env \<Rightarrow> bot_data \<Rightarrow> bot_data \<times> effect list" where
  "schedule_command lib ev bd0 =
     (case clean_old_streams lib ev 0 bd0 of
        (bd, out) \<Rightarrow>
          (case upcoming_loop lib (clock ev 1) SkipMalformed SkipUnknownTz (streams bd) of
             (upcoming_streams, out2) \<Rightarrow>
               if upcoming_streams = []
               then (bd, out @ out2 @ [Reply NoUpcomingStreams])
               else (bd, out @ out2 @ [Reply (UpcomingSchedule (sort_by_timestamp upcoming_streams))])))"

text \<open>The \<open>addstream\<close> command, for the owner.\<close>

definition addstream_command :: "pylib \<Rightarrow> string list \<Rightarrow> bot_data \<Rightarrow> bot_data \<times> effect list" where
  "addstream_command lib args bd =
     (if length args < 3 then (bd, [Reply AddstreamUsage])
      else (let datetime_str = args ! 0 @ CHR '' '' # args ! 1;
                original_tz_name = args ! 2;
                description = join_sp (drop 3 args)
            in case strptime lib datetime_str of
                 None \<Rightarrow> (bd, [Reply InvalidDateFormat])
               | Some d \<Rightarrow>
                   if \<not> timezone lib original_tz_name
                   then (bd, [Reply (InvalidOriginalTimezone original_tz_name)])
                   else (let new_stream = \<lparr>datetime = datetime_str,
                                            original_timezone = original_tz_name,
                                            description = description\<rparr>;
                             bd' = bd\<lparr>streams := streams bd @ [new_stream]\<rparr>
                         in (bd', [Save bd', Reply (StreamAdded new_stream)]))))"

text \<open>
  The \<open>try\<close> block of \<open>removestream\<close>, on the index already converted:
  \<open>list.pop(i)\<close> with \<open>0 <= i < len\<close> takes the element at \<open>i\<close> out.
\<close>

definition remove_at :: "int \<Rightarrow> bot_data \<Rightarrow> bot_data \<times> effect list" where
  "remove_at index_to_remove bd =
     (if 0 \<le> index_to_remove \<and> index_to_remove < int (length (streams bd))
      then (let i = nat index_to_remove;
                removed_stream = streams bd ! i;
                bd' = bd\<lparr>streams := take i (streams bd) @ drop (Suc i) (streams bd)\<rparr>
            in (bd', [Save bd', Reply (RemovedStream removed_stream)]))
      else (bd, [Reply InvalidStreamIndex]))"

definition removestream_command :: "pylib \<Rightarrow> env \<Rightarrow> string list \<Rightarrow> bot_data \<Rightarrow> bot_data \<times> effect list" where
  "removestream_command lib ev args bd0 =
     (case clean_old_streams lib ev 0 bd0 of
        (bd, out) \<Rightarrow>
          if args = [] \<or> \<not> isdigit (args ! 0)
          then (bd, out @ [Reply RemovestreamUsage])
          else (case remove_at (py_int (args ! 0)) bd of
                  (bd', out2) \<Rightarrow> (bd', out @ out2)))"

definition liststreams_command :: "pylib \<Rightarrow> env \<Rightarrow> bot_data \<Rightarrow> bot_data \<times> effect list" where
  "liststreams_command lib ev bd0 =
     (case clean_old_streams lib ev 0 bd0 of
        (bd, out) \<Rightarrow>
          if streams bd = []
          then (bd, out @ [Reply NoStreamsStored])
          else (bd, out @ [Reply (AllStoredStreams (enumerate 0 (streams bd)))]))"

definition setannouncechannel_command :: "env \<Rightarrow> string list \<Rightarrow> bot_data \<Rightarrow> bot_data \<times> effect list" where
  "setannouncechannel_command ev args bd =
     (if args = [] \<or> \<not> isdigit (args ! 0)
      then (bd, [Reply SetannouncechannelUsage])
      else (let channel_id = py_int (args ! 0)
            in if get_channel ev channel_id = Some TextChannel
               then (let bd' = bd\<lparr>announcement_channel_id := Some channel_id\<rparr>
                     in (bd', [Save bd', Reply (AnnounceChannelSet channel_id)]))
               else (bd, [Reply (ChannelInvalid channel_id)])))"

definition settimezone_command :: "pylib \<Rightarrow> int \<Rightarrow> string list \<Rightarrow> bot_data \<Rightarrow> bot_data \<times> effect list" where
  "settimezone_command lib user_id args bd =
     (if args = [] then (bd, [Reply TimezoneUsage])
      else (let timezone_name = args ! 0
            in case set_user_timezone lib user_id timezone_name bd of
                 (bd', out, ok) \<Rightarrow>
                   if ok then (bd', out @ [Reply (TimezoneSet timezone_name)])
                   else (bd', out @ [Reply (InvalidTimezone timezone_name)])))"

text \<open>
  \<open>on_message\<close>; \<open>owner\<close> is \<open>BOT_OWNER_ID\<close> of the configuration file. The owner's
  commands are an \<open>if\<close>/\<open>elif\<close> chain without \<open>else\<close>, so any other command from the
  owner does nothing.
\<close>

definition on_message :: "pylib \<Rightarrow> int \<Rightarrow> env \<Rightarrow> message_in \<Rightarrow> bot_data \<Rightarrow> bot_data \<times> effect list" where
  "on_message lib owner ev msg bd =
     (if from_self msg then (bd, [])
      else if take 1 (content msg) \<noteq> ''!'' then (bd, [])
      else (let parts = split_sp (drop 1 (content msg));
                command = lower (hd parts);
                args = tl parts
            in if command = ''settimezone'' then settimezone_command lib (author_id msg) args bd
               else if command = ''schedule'' then schedule_command lib ev bd
               else if author_id msg = owner
               then (if command = ''addstream'' then addstream_command lib args bd
                     else if command = ''removestream'' then removestream_command lib ev args bd
                     else if command = ''liststreams'' then liststreams_command lib ev bd
                     else if command = ''setannouncechannel'' then setannouncechannel_command ev args bd
                     else (bd, []))
               else (bd, [Reply (UnknownCommand command)])))"

section \<open>Handlers run one after the other\<close>

text \<open>
  The event loop runs the daily trigger and the incoming messages one at a time, each
  on the \<open>bot_data\<close> the one before left, and each with its own view of the outside
  world. \<open>run_events\<close> returns the final \<open>bot_data\<close> and all effects in order.
\<close>

datatype event = Trigger env | Incoming env message_in

fun run_events :: "pylib \<Rightarrow> int \<Rightarrow> event list \<Rightarrow> bot_data \<Rightarrow> bot_data \<times> effect list" where
  "run_events lib owner [] bd = (bd, [])"
| "run_events lib owner (Trigger ev # es) bd =
     (case daily_schedule_announcer lib ev bd of
        (bd1, out1, oc) \<Rightarrow>
          (case run_events lib owner es bd1 of (bd2, out2) \<Rightarrow> (bd2, out1 @ out2)))"
| "run_events lib owner (Incoming ev msg # es) bd =
     (case on_message lib owner ev msg bd of
        (bd1, out1) \<Rightarrow>
          (case run_events lib owner es bd1 of (bd2, out2) \<Rightarrow> (bd2, out1 @ out2)))"

text \<open>The UTC day on which a trigger computes \<open>today_utc\<close>, for each trigger of a run.\<close>

fun trigger_days :: "event list \<Rightarrow> int list" where
  "trigger_days [] = []"
| "trigger_days (Trigger ev # es) = utc_day (clock ev 1) # trigger_days es"
| "trigger_days (Incoming ev msg # es) = trigger_days es"

section \<open>Vocabulary of the properties\<close>

text \<open>The messages delivered to the announcement channel and the snapshots saved.\<close>

definition sends :: "effect list \<Rightarrow> (int \<times> message) list" where
  "sends out = List.map_filter (\<lambda>e. case e of Send c m \<Rightarrow> Some (c, m) | _ \<Rightarrow> None) out"

definition saves :: "effect list \<Rightarrow> bot_data list" where
  "saves out = List.map_filter (\<lambda>e. case e of Save bd \<Rightarrow> Some bd | _ \<Rightarrow> None) out"

definition prints :: "effect list \<Rightarrow> log_msg list" where
  "prints out = List.map_filter (\<lambda>e. case e of Print l \<Rightarrow> Some l | _ \<Rightarrow> None) out"

definition replies :: "effect list \<Rightarrow> message list" where
  "replies out = List.map_filter (\<lambda>e. case e of Reply m \<Rightarrow> Some m | _ \<Rightarrow> None) out"

text \<open>
  A stream is expired at \<open>now_utc\<close> when it localizes to an instant that is not after
  \<open>now_utc\<close>, upcoming when it localizes to an instant after \<open>now_utc\<close>, and malformed when
  it does not localize.
\<close>

definition expired :: "pylib \<Rightarrow> int \<Rightarrow> stream \<Rightarrow> bool" where
  "expired lib now_utc st =
     (case localize_stream lib st of Inr secs \<Rightarrow> secs * 1000000 \<le> now_utc | Inl e \<Rightarrow> False)"

definition is_upcoming :: "pylib \<Rightarrow> int \<Rightarrow> stream \<Rightarrow> bool" where
  "is_upcoming lib now_utc st =
     (case localize_stream lib st of Inr secs \<Rightarrow> now_utc < secs * 1000000 | Inl e \<Rightarrow> False)"

definition malformed :: "pylib \<Rightarrow> stream \<Rightarrow> bool" where
  "malformed lib st = (case localize_stream lib st of Inr secs \<Rightarrow> False | Inl e \<Rightarrow> True)"

text \<open>The warning of \<open>clean_old_streams\<close> for each malformed stream, in stored order.\<close>

definition cleanup_warnings :: "pylib \<Rightarrow> stream list \<Rightarrow> effect list" where
  "cleanup_warnings lib sts =
     List.map_filter
       (\<lambda>st. case localize_stream lib st of
                Inl e \<Rightarrow> Some (Print (WarnCleanup st e))
              | Inr secs \<Rightarrow> None) sts"

text \<open>
  The entries of the upcoming streams in stored order, before sorting, and the line
  logged for each malformed stream.
\<close>

definition upcoming_entries :: "pylib \<Rightarrow> int \<Rightarrow> stream list \<Rightarrow> (int \<times> string) list" where
  "upcoming_entries lib now_utc sts =
     List.map_filter
       (\<lambda>st. case localize_stream lib st of
                Inr secs \<Rightarrow> if now_utc < secs * 1000000 then Some (secs, description st) else None
              | Inl e \<Rightarrow> None) sts"

definition skip_warnings :: "pylib \<Rightarrow> (stream \<Rightarrow> log_msg) \<Rightarrow> (stream \<Rightarrow> log_msg) \<Rightarrow> stream list \<Rightarrow> effect list" where
  "skip_warnings lib on_value_error on_unknown_tz sts =
     List.map_filter
       (\<lambda>st. case localize_stream lib st of
                Inl ValueError \<Rightarrow> Some (Print (on_value_error st))
              | Inl UnknownTimeZoneError \<Rightarrow> Some (Print (on_unknown_tz st))
              | Inr secs \<Rightarrow> None) sts"

text \<open>The list the \<open>schedule\<close> command and the announcer render.\<close>

definition listing :: "pylib \<Rightarrow> int \<Rightarrow> stream list \<Rightarrow> (int \<times> string) list" where
  "listing lib now_utc sts =
     sort_by_timestamp (fst (upcoming_loop lib now_utc SkipMalformed SkipUnknownTz sts))"

text \<open>
  The message the announcer hands to \<open>channel.send\<close> when it reads the clock at
  \<open>now_utc\<close> for the list.
\<close>

definition announcement :: "pylib \<Rightarrow> int \<Rightarrow> stream list \<Rightarrow> message" where
  "announcement lib now_utc sts =
     (if listing lib now_utc sts = [] then NoUpcomingStreams
      else DailyScheduleUpdate (listing lib now_utc sts))"

text \<open>An environment whose clock gives the same reading on every call.\<close>

definition fixed_clock :: "env \<Rightarrow> int \<Rightarrow> env" where
  "fixed_clock ev now_utc = ev\<lparr>clock := (\<lambda>n. now_utc)\<rparr>"

section \<open>Example inputs\<close>

text \<open>
  A small instance of the libraries: three dates that parse, one zone, and the dates of
  two days. 2020-01-01 10:00 UTC is 1577872800 seconds after the epoch,
  2030-01-01 10:00 UTC is 1893492000 and 2031-01-01 10:00 UTC is 1925028000; day 20000
  is 2024-10-04.
\<close>

definition ex_lib :: pylib where
  "ex_lib =
     \<lparr>strptime = (\<lambda>s. if s = ''2020-01-01 10:00'' then Some (Naive 2020 1 1 10 0)
                     else if s = ''2030-01-01 10:00'' then Some (Naive 2030 1 1 10 0)
                     else if s = ''2031-01-01 10:00'' then Some (Naive 2031 1 1 10 0)
                     else None),
      timezone = (\<lambda>z. z = ''UTC''),
      localize = (\<lambda>z d. if year d = 2020 then 1577872800
                       else if year d = 2030 then 1893492000
                       else 1925028000),
      isoformat = (\<lambda>n. if n = 20000 then ''2024-10-04''
                      else if n = 20001 then ''2024-10-05''
                      else ''another day'')\<rparr>"

definition ex_old :: stream where
  "ex_old = \<lparr>datetime = ''2020-01-01 10:00'', original_timezone = ''UTC'', description = ''Old''\<rparr>"

definition ex_launch :: stream where
  "ex_launch = \<lparr>datetime = ''2030-01-01 10:00'', original_timezone = ''UTC'', description = ''Launch''\<rparr>"

definition ex_party :: stream where
  "ex_party = \<lparr>datetime = ''2030-01-01 10:00'', original_timezone = ''UTC'', description = ''Party''\<rparr>"

definition ex_later :: stream where
  "ex_later = \<lparr>datetime = ''2031-01-01 10:00'', original_timezone = ''UTC'', description = ''Later''\<rparr>"

definition ex_bad_date :: stream where
  "ex_bad_date = \<lparr>datetime = ''tomorrow'', original_timezone = ''UTC'', description = ''Bad date''\<rparr>"

definition ex_bad_zone :: stream where
  "ex_bad_zone = \<lparr>datetime = ''2030-01-01 10:00'', original_timezone = ''Mars/Phobos'', description = ''Bad zone''\<rparr>"

text \<open>
  A store with an expired, a malformed and two upcoming streams; the same store with no
  announcement channel; the same store after an announcement on 2024-10-04; a store
  with one upcoming stream and the channel identifier 0, and the same with channel 42;
  an empty store with a channel.
\<close>

definition ex_data :: bot_data where
  "ex_data =
     \<lparr>streams = [ex_party, ex_old, ex_bad_date, ex_launch],
      user_timezones = [(''7'', ''UTC'')],
      announcement_channel_id = Some 42,
      last_announced_date_utc = None\<rparr>"

definition ex_data_no_channel :: bot_data where
  "ex_data_no_channel = ex_data\<lparr>announcement_channel_id := None\<rparr>"

definition ex_data_announced :: bot_data where
  "ex_data_announced = ex_data\<lparr>last_announced_date_utc := Some ''2024-10-04''\<rparr>"

definition ex_data_zero_channel :: bot_data where
  "ex_data_zero_channel =
     \<lparr>streams = [ex_launch], user_timezones = [], announcement_channel_id = Some 0,
      last_announced_date_utc = None\<rparr>"

definition ex_data_launch :: bot_data where
  "ex_data_launch =
     \<lparr>streams = [ex_launch], user_timezones = [], announcement_channel_id = Some 42,
      last_announced_date_utc = None\<rparr>"

definition ex_data_empty :: bot_data where
  "ex_data_empty = ex_data\<lparr>streams := []\<rparr>"

text \<open>
  An invocation at the start of 2024-10-04 whose clock advances by a microsecond with
  every reading, channel 42 being a text channel that accepts messages; the same with a
  channel that refuses them; and an invocation whose first clock reading is 10
  microseconds before 2030-01-01 10:00 UTC and whose later readings are 10 microseconds
  after it.
\<close>

definition ex_env :: env where
  "ex_env =
     \<lparr>clock = (\<lambda>n. 1728000000000000 + int n),
      get_channel = (\<lambda>c. if c = 42 then Some TextChannel else None),
      channel_send = (\<lambda>c m. None)\<rparr>"

definition ex_env_forbidden :: env where
  "ex_env_forbidden = ex_env\<lparr>channel_send := (\<lambda>c m. Some Forbidden)\<rparr>"

definition ex_env_straddle :: env where
  "ex_env_straddle =
     ex_env\<lparr>clock := (\<lambda>n. if n = 0 then 1893491999999990 else 1893492000000010)\<rparr>"

text \<open>
  An invocation whose first two clock readings are the last microsecond of 2024-10-04
  and whose third is the first of 2024-10-05, and a store that records an announcement
  on 2024-10-05.
\<close>

definition ex_env_midnight :: env where
  "ex_env_midnight =
     ex_env\<lparr>clock := (\<lambda>n. if n = 2 then 1728086400000000 else 1728086399999999)\<rparr>"

definition ex_data_midnight :: bot_data where
  "ex_data_midnight = ex_data_launch\<lparr>last_announced_date_utc := Some ''2024-10-05''\<rparr>"

definition ex_schedule :: message_in where
  "ex_schedule = \<lparr>from_self = False, author_id = 7, content = ''!schedule''\<rparr>"

definition ex_addstream :: message_in where
  "ex_addstream =
     \<lparr>from_self = False, author_id = 1, content = ''!addstream 2030-01-01 10:00 UTC New year''\<rparr>"

definition ex_new_year :: stream where
  "ex_new_year =
     \<lparr>datetime = ''2030-01-01 10:00'', original_timezone = ''UTC'', description = ''New year''\<rparr>"

definition ex_settimezone :: message_in where
  "ex_settimezone = \<lparr>from_self = False, author_id = 7, content = ''!settimezone Mars/Phobos''\<rparr>"

definition ex_removestream :: message_in where
  "ex_removestream = \<lparr>from_self = False, author_id = 1, content = ''!removestream 1''\<rparr>"

text \<open>Two triggers on 2024-10-04 with a \<open>schedule\<close> command between them.\<close>

definition ex_events :: "event list" where
  "ex_events = [Trigger ex_env, Incoming ex_env ex_schedule, Trigger ex_env]"

section \<open>The example inputs localize as expected\<close>

lemma ex_localize:
  "localize_stream ex_lib ex_old = Inr 1577872800"
  "localize_stream ex_lib ex_launch = Inr 1893492000"
  "localize_stream ex_lib ex_party = Inr 1893492000"
  "localize_stream ex_lib ex_later = Inr 1925028000"
  "localize_stream ex_lib ex_bad_date = Inl ValueError"
  "localize_stream ex_lib ex_bad_zone = Inl UnknownTimeZoneError"
  by (simp_all add: localize_stream_def ex_lib_def ex_old_def ex_launch_def ex_party_def
      ex_later_def ex_bad_date_def ex_bad_zone_def)

section \<open>The pruning loop\<close>

lemma map_filter_append:
  "List.map_filter f (xs @ ys) = List.map_filter f xs @ List.map_filter f ys"
  by (simp add: List.map_filter_def)

lemma clean_step_eq:
  "clean_step lib now st (u, r, out) =
     (u @ filter (\<lambda>st. \<not> expired lib now st) [st],
      r + length (filter (expired lib now) [st]),
      out @ cleanup_warnings lib [st])"
  by (cases "localize_stream lib st")
     (simp_all add: clean_step_def expired_def cleanup_warnings_def later_than_def not_less)

lemma cleanup_warnings_Cons:
  "cleanup_warnings lib (st # sts) = cleanup_warnings lib [st] @ cleanup_warnings lib sts"
  unfolding cleanup_warnings_def map_filter_append [symmetric] by simp

lemma clean_fold:
  "fold (clean_step lib now) sts (u, r, out) =
     (u @ filter (\<lambda>st. \<not> expired lib now st) sts,
      r + length (filter (expired lib now) sts),
      out @ cleanup_warnings lib sts)"
proof (induction sts arbitrary: u r out)
  case Nil
  show ?case by (simp add: cleanup_warnings_def)
next
  case (Cons st sts)
  have "fold (clean_step lib now) (st # sts) (u, r, out) =
        fold (clean_step lib now) sts (clean_step lib now st (u, r, out))"
    by simp
  also have "\<dots> = (u @ filter (\<lambda>st. \<not> expired lib now st) (st # sts),
      r + length (filter (expired lib now) (st # sts)),
      out @ cleanup_warnings lib (st # sts))"
    unfolding clean_step_eq Cons.IH cleanup_warnings_Cons [of lib st sts] by simp
  finally show ?case .
qed

lemma clean_old_streams_at_eq:
  "clean_old_streams_at lib now bd =
     (if list_ex (expired lib now) (streams bd)
      then (bd\<lparr>streams := filter (\<lambda>st. \<not> expired lib now st) (streams bd)\<rparr>,
            cleanup_warnings lib (streams bd) @
              [Save (bd\<lparr>streams := filter (\<lambda>st. \<not> expired lib now st) (streams bd)\<rparr>),
               Print (CleanedUp (length (filter (expired lib now) (streams bd))))])
      else (bd, cleanup_warnings lib (streams bd) @ [Print NoOldStreams]))"
  by (auto simp: clean_old_streams_at_def clean_fold list_ex_iff filter_empty_conv Let_def)

lemma filter_not_expired_id:
  "\<not> list_ex (expired lib now) sts \<Longrightarrow> filter (\<lambda>st. \<not> expired lib now st) sts = sts"
  by (simp add: list_ex_iff)

lemma streams_clean:
  "streams (fst (clean_old_streams_at lib now bd)) =
     filter (\<lambda>st. \<not> expired lib now st) (streams bd)"
  by (simp add: clean_old_streams_at_eq filter_not_expired_id)

lemma clean_keeps_fields:
  "user_timezones (fst (clean_old_streams_at lib now bd)) = user_timezones bd"
  "announcement_channel_id (fst (clean_old_streams_at lib now bd)) = announcement_channel_id bd"
  "last_announced_date_utc (fst (clean_old_streams_at lib now bd)) = last_announced_date_utc bd"
  by (simp_all add: clean_old_streams_at_eq)

lemma malformed_not_expired: "malformed lib st \<Longrightarrow> \<not> expired lib now st"
  by (simp add: malformed_def expired_def split: sum.splits)

lemma saves_simps:
  "saves [] = []"
  "saves (Print l # out) = saves out"
  "saves (Save b # out) = b # saves out"
  "saves (Send c m # out) = saves out"
  "saves (Reply m # out) = saves out"
  by (simp_all add: saves_def)

lemma sends_simps:
  "sends [] = []"
  "sends (Print l # out) = sends out"
  "sends (Save b # out) = sends out"
  "sends (Send c m # out) = (c, m) # sends out"
  "sends (Reply m # out) = sends out"
  by (simp_all add: sends_def)

lemma prints_simps:
  "prints [] = []"
  "prints (Print l # out) = l # prints out"
  "prints (Save b # out) = prints out"
  "prints (Send c m # out) = prints out"
  "prints (Reply m # out) = prints out"
  by (simp_all add: prints_def)

lemma replies_simps:
  "replies [] = []"
  "replies (Print l # out) = replies out"
  "replies (Save b # out) = replies out"
  "replies (Send c m # out) = replies out"
  "replies (Reply m # out) = m # replies out"
  by (simp_all add: replies_def)

lemma replies_append: "replies (xs @ ys) = replies xs @ replies ys"
  by (simp add: replies_def map_filter_append)

lemma saves_append: "saves (xs @ ys) = saves xs @ saves ys"
  by (simp add: saves_def map_filter_append)

lemma sends_append: "sends (xs @ ys) = sends xs @ sends ys"
  by (simp add: sends_def map_filter_append)

lemma prints_append: "prints (xs @ ys) = prints xs @ prints ys"
  by (simp add: prints_def map_filter_append)

lemma saves_cleanup_warnings: "saves (cleanup_warnings lib sts) = []"
  by (induction sts) (simp_all add: saves_def cleanup_warnings_def split: sum.splits)

lemma sends_cleanup_warnings: "sends (cleanup_warnings lib sts) = []"
  by (induction sts) (simp_all add: sends_def cleanup_warnings_def split: sum.splits)

lemma cleanup_warnings_filter:
  "cleanup_warnings lib (filter (\<lambda>st. \<not> expired lib now st) sts) = cleanup_warnings lib sts"
  by (induction sts) (simp_all add: cleanup_warnings_def expired_def split: sum.splits)

lemma shorter_iff_expired:
  "(length (filter (\<lambda>st. \<not> expired lib now st) sts) < length sts) = list_ex (expired lib now) sts"
proof (cases "list_ex (expired lib now) sts")
  case True
  then obtain x where "x \<in> set sts" "\<not> \<not> expired lib now x"
    by (auto simp: list_ex_iff)
  then have "length (filter (\<lambda>st. \<not> expired lib now st) sts) < length sts"
    by (rule length_filter_less)
  with True show ?thesis by simp
next
  case False
  then show ?thesis by (simp add: filter_not_expired_id)
qed

lemma ex_clean:
  "clean_old_streams_at ex_lib 1728000000000000 ex_data =
     (ex_data\<lparr>streams := [ex_party, ex_bad_date, ex_launch]\<rparr>,
      [Print (WarnCleanup ex_bad_date ValueError),
       Save (ex_data\<lparr>streams := [ex_party, ex_bad_date, ex_launch]\<rparr>),
       Print (CleanedUp 1)])"
  by (simp add: clean_old_streams_at_eq ex_data_def expired_def ex_localize cleanup_warnings_def)

text \<open>
  C2. For every store and clock reading, \<open>clean_old_streams\<close> leaves exactly the streams
  that are not expired, in stored order: it removes the streams whose instant is at or
  before the reading and nothing else. The malformed streams are all still there, and
  each has its warning in the log. \<open>save_data\<close> is called if and only if the list got
  shorter, and then with the new \<open>bot_data\<close>; the other keys are not touched.
\<close>

theorem prune_removes_exactly_expired:
  "streams (fst (clean_old_streams_at lib now bd)) =
       filter (\<lambda>st. \<not> expired lib now st) (streams bd)
   \<and> filter (malformed lib) (streams (fst (clean_old_streams_at lib now bd))) =
       filter (malformed lib) (streams bd)
   \<and> snd (clean_old_streams_at lib now bd) =
       cleanup_warnings lib (streams bd) @
       (if list_ex (expired lib now) (streams bd)
        then [Save (fst (clean_old_streams_at lib now bd)),
              Print (CleanedUp (length (filter (expired lib now) (streams bd))))]
        else [Print NoOldStreams])
   \<and> (saves (snd (clean_old_streams_at lib now bd)) \<noteq> []) =
       (length (streams (fst (clean_old_streams_at lib now bd))) < length (streams bd))
   \<and> user_timezones (fst (clean_old_streams_at lib now bd)) = user_timezones bd
   \<and> announcement_channel_id (fst (clean_old_streams_at lib now bd)) = announcement_channel_id bd
   \<and> last_announced_date_utc (fst (clean_old_streams_at lib now bd)) = last_announced_date_utc bd"
proof -
  have a: "streams (fst (clean_old_streams_at lib now bd)) =
       filter (\<lambda>st. \<not> expired lib now st) (streams bd)"
    by (rule streams_clean)
  have b: "filter (malformed lib) (filter (\<lambda>st. \<not> expired lib now st) (streams bd)) =
       filter (malformed lib) (streams bd)"
    by (auto intro: filter_cong dest: malformed_not_expired)
  have c: "snd (clean_old_streams_at lib now bd) =
       cleanup_warnings lib (streams bd) @
       (if list_ex (expired lib now) (streams bd)
        then [Save (fst (clean_old_streams_at lib now bd)),
              Print (CleanedUp (length (filter (expired lib now) (streams bd))))]
        else [Print NoOldStreams])"
    by (simp add: clean_old_streams_at_eq)
  have e: "(saves (snd (clean_old_streams_at lib now bd)) \<noteq> []) =
       list_ex (expired lib now) (streams bd)"
    unfolding c saves_append saves_cleanup_warnings by (simp add: saves_simps)
  show ?thesis
    unfolding e unfolding a b shorter_iff_expired using c clean_keeps_fields by simp
qed

theorem prune_removes_exactly_expired_witness:
  "streams (fst (clean_old_streams_at ex_lib 1728000000000000 ex_data)) =
       [ex_party, ex_bad_date, ex_launch]
   \<and> snd (clean_old_streams_at ex_lib 1728000000000000 ex_data) =
       [Print (WarnCleanup ex_bad_date ValueError),
        Save (ex_data\<lparr>streams := [ex_party, ex_bad_date, ex_launch]\<rparr>),
        Print (CleanedUp 1)]"
  using prune_removes_exactly_expired [of ex_lib 1728000000000000 ex_data]
  by (simp add: ex_data_def expired_def ex_localize cleanup_warnings_def)

text \<open>
  C9. Pruning is idempotent: a second \<open>clean_old_streams\<close> at the same clock reading,
  right after the first, leaves \<open>bot_data\<close> as the first left it, removes nothing (the
  list keeps its length, nothing is saved, and the log says that there was nothing to
  clean up).
\<close>

theorem prune_idempotent:
  "fst (clean_old_streams_at lib now (fst (clean_old_streams_at lib now bd))) =
       fst (clean_old_streams_at lib now bd)
   \<and> snd (clean_old_streams_at lib now (fst (clean_old_streams_at lib now bd))) =
       cleanup_warnings lib (streams bd) @ [Print NoOldStreams]
   \<and> saves (snd (clean_old_streams_at lib now (fst (clean_old_streams_at lib now bd)))) = []
   \<and> length (streams (fst (clean_old_streams_at lib now (fst (clean_old_streams_at lib now bd))))) =
       length (streams (fst (clean_old_streams_at lib now bd)))"
proof -
  have "\<not> list_ex (expired lib now) (streams (fst (clean_old_streams_at lib now bd)))"
    unfolding streams_clean by (simp add: list_ex_iff)
  then have "clean_old_streams_at lib now (fst (clean_old_streams_at lib now bd)) =
     (fst (clean_old_streams_at lib now bd),
      cleanup_warnings lib (streams bd) @ [Print NoOldStreams])"
    by (simp add: clean_old_streams_at_eq [of lib now "fst (clean_old_streams_at lib now bd)"]
        streams_clean cleanup_warnings_filter)
  then show ?thesis
    by (simp add: saves_append saves_cleanup_warnings saves_simps)
qed

theorem prune_idempotent_witness:
  "fst (clean_old_streams_at ex_lib 1728000000000000
          (fst (clean_old_streams_at ex_lib 1728000000000000 ex_data))) =
     ex_data\<lparr>streams := [ex_party, ex_bad_date, ex_launch]\<rparr>
   \<and> snd (clean_old_streams_at ex_lib 1728000000000000
          (fst (clean_old_streams_at ex_lib 1728000000000000 ex_data))) =
     [Print (WarnCleanup ex_bad_date ValueError), Print NoOldStreams]"
  using prune_idempotent [of ex_lib 1728000000000000 ex_data]
  by (simp add: ex_clean) (simp add: ex_data_def ex_localize cleanup_warnings_def)

section \<open>The upcoming loop\<close>

lemma upcoming_step_eq:
  "upcoming_step lib now wv wt st (ups, out) =
     (ups @ upcoming_entries lib now [st], out @ skip_warnings lib wv wt [st])"
  by (cases "localize_stream lib st")
     (simp_all add: upcoming_step_def upcoming_entries_def skip_warnings_def later_than_def
        split: loc_error.splits)

lemma upcoming_entries_Cons:
  "upcoming_entries lib now (st # sts) = upcoming_entries lib now [st] @ upcoming_entries lib now sts"
  unfolding upcoming_entries_def map_filter_append [symmetric] by simp

lemma skip_warnings_Cons:
  "skip_warnings lib wv wt (st # sts) = skip_warnings lib wv wt [st] @ skip_warnings lib wv wt sts"
  unfolding skip_warnings_def map_filter_append [symmetric] by simp

lemma upcoming_fold:
  "fold (upcoming_step lib now wv wt) sts (ups, out) =
     (ups @ upcoming_entries lib now sts, out @ skip_warnings lib wv wt sts)"
proof (induction sts arbitrary: ups out)
  case Nil
  show ?case by (simp add: upcoming_entries_def skip_warnings_def)
next
  case (Cons st sts)
  have "fold (upcoming_step lib now wv wt) (st # sts) (ups, out) =
        fold (upcoming_step lib now wv wt) sts (upcoming_step lib now wv wt st (ups, out))"
    by simp
  also have "\<dots> = (ups @ upcoming_entries lib now (st # sts), out @ skip_warnings lib wv wt (st # sts))"
    unfolding upcoming_step_eq Cons.IH upcoming_entries_Cons [of lib now st sts]
      skip_warnings_Cons [of lib wv wt st sts] by simp
  finally show ?case .
qed

lemma upcoming_loop_eq:
  "upcoming_loop lib now wv wt sts = (upcoming_entries lib now sts, skip_warnings lib wv wt sts)"
  by (simp add: upcoming_loop_def upcoming_fold)

lemma listing_eq: "listing lib now sts = sort_key fst (upcoming_entries lib now sts)"
  by (simp add: listing_def sort_by_timestamp_def upcoming_loop_eq)

lemma upcoming_entries_filter:
  "upcoming_entries lib now sts =
     map (\<lambda>st. (projr (localize_stream lib st), description st)) (filter (is_upcoming lib now) sts)"
  by (induction sts) (simp_all add: upcoming_entries_def is_upcoming_def split: sum.splits)

lemma sort_key_Nil_iff: "(sort_key f xs = []) = (xs = [])"
  by (metis length_sort length_0_conv)

lemma listing_Nil_iff: "(listing lib now sts = []) = (upcoming_entries lib now sts = [])"
  by (simp add: listing_eq sort_key_Nil_iff)

lemma schedule_command_eq:
  "schedule_command lib ev bd =
     (fst (clean_old_streams lib ev 0 bd),
      snd (clean_old_streams lib ev 0 bd) @
      skip_warnings lib SkipMalformed SkipUnknownTz (streams (fst (clean_old_streams lib ev 0 bd))) @
      [Reply (if listing lib (clock ev 1) (streams (fst (clean_old_streams lib ev 0 bd))) = []
              then NoUpcomingStreams
              else UpcomingSchedule (listing lib (clock ev 1) (streams (fst (clean_old_streams lib ev 0 bd)))))])"
  by (simp add: schedule_command_def listing_Nil_iff upcoming_loop_eq split: prod.splits)
     (simp add: listing_eq sort_by_timestamp_def)

lemma announce_eq:
  "announce lib ev c today bd out =
     (case channel_send ev c (announcement lib (clock ev 2) (streams bd)) of
        None \<Rightarrow>
          (bd\<lparr>last_announced_date_utc := Some today\<rparr>,
           out @ skip_warnings lib SkipMalformedAnnounce SkipUnknownTzAnnounce (streams bd) @
             [Send c (announcement lib (clock ev 2) (streams bd)),
              Save (bd\<lparr>last_announced_date_utc := Some today\<rparr>)],
           Announced)
      | Some e \<Rightarrow>
          if listing lib (clock ev 2) (streams bd) = []
          then (bd, out @ skip_warnings lib SkipMalformedAnnounce SkipUnknownTzAnnounce (streams bd),
                Raised e)
          else (bd,
                out @ skip_warnings lib SkipMalformedAnnounce SkipUnknownTzAnnounce (streams bd) @
                  [Print (case e of Forbidden \<Rightarrow> NoSendPermission c | OtherException \<Rightarrow> SendError)],
                Skipped))"
proof (cases "upcoming_entries lib (clock ev 2) (streams bd) = []")
  case True
  then show ?thesis
    by (simp add: announce_def announcement_def listing_Nil_iff upcoming_loop_eq Let_def
        split: option.splits)
next
  case False
  then have "listing lib (clock ev 2) (streams bd) \<noteq> []"
    by (simp add: listing_Nil_iff)
  moreover have "sort_by_timestamp (upcoming_entries lib (clock ev 2) (streams bd)) =
      listing lib (clock ev 2) (streams bd)"
    by (simp add: listing_eq sort_by_timestamp_def)
  ultimately show ?thesis using False
    by (simp add: announce_def announcement_def upcoming_loop_eq Let_def
        split: option.splits send_exc.splits)
qed

lemma ex_listing:
  "listing ex_lib 1728000000000002 [ex_later, ex_party, ex_bad_zone, ex_bad_date, ex_launch] =
     [(1893492000, ''Party''), (1893492000, ''Launch''), (1925028000, ''Later'')]"
  by (simp add: listing_eq upcoming_entries_def ex_localize)
     (simp add: ex_party_def ex_launch_def ex_later_def)

text \<open>
  C3. For every list of streams and clock reading, the list that is rendered holds
  exactly the streams that localize to an instant after the reading, each as its
  timestamp and description; it is sorted by timestamp, and entries with the same
  timestamp stand in stored order. The loop logs one line for each stream that does not
  localize and leaves it out. The \<open>schedule\<close> command replies with this list taken at
  its second clock reading over the pruned store, and the announcer sends it taken at its
  third.
\<close>

theorem upcoming_listing_sorted_stable:
  "upcoming_entries lib now sts =
       map (\<lambda>st. (projr (localize_stream lib st), description st))
         (filter (is_upcoming lib now) sts)
   \<and> mset (listing lib now sts) = mset (upcoming_entries lib now sts)
   \<and> sorted (map fst (listing lib now sts))
   \<and> (\<forall>t. filter (\<lambda>e. fst e = t) (listing lib now sts) =
           filter (\<lambda>e. fst e = t) (upcoming_entries lib now sts))
   \<and> snd (upcoming_loop lib now on_value_error on_unknown_tz sts) =
       skip_warnings lib on_value_error on_unknown_tz sts
   \<and> schedule_command lib ev bd =
       (fst (clean_old_streams lib ev 0 bd),
        snd (clean_old_streams lib ev 0 bd) @
        skip_warnings lib SkipMalformed SkipUnknownTz (streams (fst (clean_old_streams lib ev 0 bd))) @
        [Reply (if listing lib (clock ev 1) (streams (fst (clean_old_streams lib ev 0 bd))) = []
                then NoUpcomingStreams
                else UpcomingSchedule
                       (listing lib (clock ev 1) (streams (fst (clean_old_streams lib ev 0 bd)))))])
   \<and> (channel_send ev c (announcement lib (clock ev 2) (streams bd)) = None \<longrightarrow>
        fst (snd (announce lib ev c today bd out)) =
          out @ skip_warnings lib SkipMalformedAnnounce SkipUnknownTzAnnounce (streams bd) @
            [Send c (announcement lib (clock ev 2) (streams bd)),
             Save (bd\<lparr>last_announced_date_utc := Some today\<rparr>)])"
proof -
  have "sorted (map fst (listing lib now sts))"
    by (simp add: listing_eq)
  moreover have "\<forall>t. filter (\<lambda>e. fst e = t) (listing lib now sts) =
      filter (\<lambda>e. fst e = t) (upcoming_entries lib now sts)"
    by (simp add: listing_eq sort_key_stable)
  moreover have "mset (listing lib now sts) = mset (upcoming_entries lib now sts)"
    by (simp add: listing_eq)
  moreover have "snd (upcoming_loop lib now on_value_error on_unknown_tz sts) =
      skip_warnings lib on_value_error on_unknown_tz sts"
    by (simp add: upcoming_loop_eq)
  moreover have "channel_send ev c (announcement lib (clock ev 2) (streams bd)) = None \<longrightarrow>
        fst (snd (announce lib ev c today bd out)) =
          out @ skip_warnings lib SkipMalformedAnnounce SkipUnknownTzAnnounce (streams bd) @
            [Send c (announcement lib (clock ev 2) (streams bd)),
             Save (bd\<lparr>last_announced_date_utc := Some today\<rparr>)]"
    by (simp add: announce_eq)
  ultimately show ?thesis
    using upcoming_entries_filter [of lib now sts] schedule_command_eq [of lib ev bd]
    by blast
qed

theorem upcoming_listing_sorted_stable_witness:
  "listing ex_lib 1728000000000002 [ex_later, ex_party, ex_bad_zone, ex_bad_date, ex_launch] =
       [(1893492000, ''Party''), (1893492000, ''Launch''), (1925028000, ''Later'')]
   \<and> snd (upcoming_loop ex_lib 1728000000000002 SkipMalformed SkipUnknownTz
            [ex_later, ex_party, ex_bad_zone, ex_bad_date, ex_launch]) =
       [Print (SkipUnknownTz ex_bad_zone), Print (SkipMalformed ex_bad_date)]
   \<and> channel_send ex_env 42
        (announcement ex_lib (clock ex_env 2)
           [ex_later, ex_party, ex_bad_zone, ex_bad_date, ex_launch]) = None
   \<and> sends (fst (snd (announce ex_lib ex_env 42 ''2024-10-04''
        (ex_data\<lparr>streams := [ex_later, ex_party, ex_bad_zone, ex_bad_date, ex_launch]\<rparr>) []))) =
       [(42, DailyScheduleUpdate
               [(1893492000, ''Party''), (1893492000, ''Launch''), (1925028000, ''Later'')])]"
  using upcoming_listing_sorted_stable [of ex_lib 1728000000000002
      "[ex_later, ex_party, ex_bad_zone, ex_bad_date, ex_launch]" SkipMalformed SkipUnknownTz
      ex_env "ex_data\<lparr>streams := [ex_later, ex_party, ex_bad_zone, ex_bad_date, ex_launch]\<rparr>"
      42 "''2024-10-04''" "[]"]
  by (simp add: ex_listing announcement_def ex_env_def skip_warnings_def ex_localize
      sends_append sends_simps)

section \<open>The announcer\<close>

lemma clean_old_streams_sends: "sends (snd (clean_old_streams_at lib now bd)) = []"
  by (simp add: clean_old_streams_at_eq sends_append sends_cleanup_warnings sends_simps)

lemma sends_skip_warnings: "sends (skip_warnings lib wv wt sts) = []"
  by (induction sts) (simp_all add: skip_warnings_def sends_simps split: sum.splits loc_error.splits)

lemma announcer_eq:
  "daily_schedule_announcer lib ev bd0 =
     (let bd = fst (clean_old_streams_at lib (clock ev 0) bd0);
          out = snd (clean_old_streams_at lib (clock ev 0) bd0)
      in if \<not> truthy_id (announcement_channel_id bd0)
         then (bd, out @ [Print NoAnnouncementChannel], Skipped)
         else if last_announced_date_utc bd0 = Some (utc_date_str lib (clock ev 1))
         then (bd, out @ [Print (AlreadyAnnounced (utc_date_str lib (clock ev 1)))], Suppressed)
         else if get_channel ev (the (announcement_channel_id bd0)) = None
         then (bd, out @ [Print (ChannelNotFound (the (announcement_channel_id bd0)))], Skipped)
         else announce lib ev (the (announcement_channel_id bd0)) (utc_date_str lib (clock ev 1)) bd out)"
  by (simp add: daily_schedule_announcer_def clean_old_streams_def case_prod_beta
      clean_keeps_fields Let_def split: option.splits)

lemma announce_sends:
  "sends (fst (snd (announce lib ev c today bd out))) =
     sends out @ (if channel_send ev c (announcement lib (clock ev 2) (streams bd)) = None
                  then [(c, announcement lib (clock ev 2) (streams bd))] else [])"
  by (simp add: announce_eq sends_append sends_skip_warnings sends_simps split: option.splits)

lemma announce_last:
  "last_announced_date_utc (fst (announce lib ev c today bd out)) =
     (if channel_send ev c (announcement lib (clock ev 2) (streams bd)) = None
      then Some today else last_announced_date_utc bd)"
  by (simp add: announce_eq split: option.splits)

lemma announce_outcome:
  "snd (snd (announce lib ev c today bd out)) =
     (case channel_send ev c (announcement lib (clock ev 2) (streams bd)) of
        None \<Rightarrow> Announced
      | Some e \<Rightarrow> if listing lib (clock ev 2) (streams bd) = [] then Raised e else Skipped)"
  by (simp add: announce_eq split: option.splits)

lemma announcer_sends_cases:
  "(sends (fst (snd (daily_schedule_announcer lib ev bd))) = []
      \<and> last_announced_date_utc (fst (daily_schedule_announcer lib ev bd)) = last_announced_date_utc bd)
   \<or> (length (sends (fst (snd (daily_schedule_announcer lib ev bd)))) = 1
      \<and> last_announced_date_utc bd \<noteq> Some (utc_date_str lib (clock ev 1))
      \<and> last_announced_date_utc (fst (daily_schedule_announcer lib ev bd)) =
          Some (utc_date_str lib (clock ev 1)))"
  by (simp add: announcer_eq Let_def announce_sends announce_last clean_old_streams_sends
      sends_append sends_simps clean_keeps_fields)

lemma set_user_timezone_frame:
  "sends (fst (snd (set_user_timezone lib u z bd))) = []"
  "last_announced_date_utc (fst (set_user_timezone lib u z bd)) = last_announced_date_utc bd"
  by (simp_all add: set_user_timezone_def Let_def sends_simps)

lemma remove_at_frame:
  "sends (snd (remove_at i bd)) = []"
  "last_announced_date_utc (fst (remove_at i bd)) = last_announced_date_utc bd"
  by (simp_all add: remove_at_def Let_def sends_simps)

lemma on_message_frame:
  "sends (snd (on_message lib owner ev msg bd)) = []
   \<and> last_announced_date_utc (fst (on_message lib owner ev msg bd)) = last_announced_date_utc bd"
  by (simp add: on_message_def Let_def settimezone_command_def schedule_command_eq
      addstream_command_def removestream_command_def liststreams_command_def
      setannouncechannel_command_def clean_old_streams_def clean_old_streams_sends
      clean_keeps_fields sends_append sends_simps sends_skip_warnings
      set_user_timezone_frame remove_at_frame case_prod_beta
      split: option.splits)


lemma run_events_Trigger:
  "run_events lib owner (Trigger ev # es) bd =
     (fst (run_events lib owner es (fst (daily_schedule_announcer lib ev bd))),
      fst (snd (daily_schedule_announcer lib ev bd)) @
      snd (run_events lib owner es (fst (daily_schedule_announcer lib ev bd))))"
  by (simp add: case_prod_beta)

lemma run_events_Incoming:
  "run_events lib owner (Incoming ev msg # es) bd =
     (fst (run_events lib owner es (fst (on_message lib owner ev msg bd))),
      snd (on_message lib owner ev msg bd) @
      snd (run_events lib owner es (fst (on_message lib owner ev msg bd))))"
  by (simp add: case_prod_beta)

lemma run_events_sends:
  "\<forall>d' \<in> set (trigger_days es). d' = d \<Longrightarrow>
   length (sends (snd (run_events lib owner es bd))) \<le> 1
   \<and> (last_announced_date_utc bd = Some (isoformat lib d) \<longrightarrow>
        sends (snd (run_events lib owner es bd)) = [])"
proof (induction es arbitrary: bd)
  case Nil
  show ?case by (simp add: sends_simps)
next
  case (Cons e es)
  show ?case
  proof (cases e)
    case (Trigger ev)
    with Cons.prems have day: "utc_date_str lib (clock ev 1) = isoformat lib d"
      and rest: "\<forall>d' \<in> set (trigger_days es). d' = d"
      by (simp_all add: utc_date_str_def)
    let ?bd1 = "fst (daily_schedule_announcer lib ev bd)"
    note ih = Cons.IH [OF rest, of ?bd1]
    from announcer_sends_cases [of lib ev bd] show ?thesis
    proof
      assume "sends (fst (snd (daily_schedule_announcer lib ev bd))) = []
        \<and> last_announced_date_utc ?bd1 = last_announced_date_utc bd"
      with ih show ?thesis
        unfolding Trigger run_events_Trigger by (simp add: sends_append)
    next
      assume "length (sends (fst (snd (daily_schedule_announcer lib ev bd)))) = 1
        \<and> last_announced_date_utc bd \<noteq> Some (utc_date_str lib (clock ev 1))
        \<and> last_announced_date_utc ?bd1 = Some (utc_date_str lib (clock ev 1))"
      with ih day show ?thesis
        unfolding Trigger run_events_Trigger by (simp add: sends_append)
    qed
  next
    case (Incoming ev msg)
    with Cons.prems have rest: "\<forall>d' \<in> set (trigger_days es). d' = d"
      by simp
    note ih = Cons.IH [OF rest, of "fst (on_message lib owner ev msg bd)"]
    with on_message_frame [of lib owner ev msg bd] show ?thesis
      unfolding Incoming run_events_Incoming by (simp add: sends_append)
  qed
qed

text \<open>
  C1. At most one announcement per UTC day. A trigger that finds a channel configured,
  \<open>last_announced_date_utc\<close> different from today, the channel resolved and the send
  accepted sends exactly one message, ends \<open>Announced\<close> and sets
  \<open>last_announced_date_utc\<close> to today. A trigger that finds a channel configured and
  \<open>last_announced_date_utc\<close> equal to today ends \<open>Suppressed\<close> and sends nothing. And
  in any run of triggers and commands in which every trigger computes the same day, at
  most one message reaches the announcement channel.
\<close>

theorem announce_once_per_day:
  "(truthy_id (announcement_channel_id bd)
      \<and> last_announced_date_utc bd \<noteq> Some (utc_date_str lib (clock ev 1))
      \<and> get_channel ev (the (announcement_channel_id bd)) \<noteq> None
      \<and> channel_send ev (the (announcement_channel_id bd))
           (announcement lib (clock ev 2) (streams (fst (clean_old_streams lib ev 0 bd)))) = None
    \<longrightarrow> snd (snd (daily_schedule_announcer lib ev bd)) = Announced
      \<and> sends (fst (snd (daily_schedule_announcer lib ev bd))) =
          [(the (announcement_channel_id bd),
            announcement lib (clock ev 2) (streams (fst (clean_old_streams lib ev 0 bd))))]
      \<and> last_announced_date_utc (fst (daily_schedule_announcer lib ev bd)) =
          Some (utc_date_str lib (clock ev 1)))
   \<and> (truthy_id (announcement_channel_id bd)
      \<and> last_announced_date_utc bd = Some (utc_date_str lib (clock ev 1))
    \<longrightarrow> snd (snd (daily_schedule_announcer lib ev bd)) = Suppressed
      \<and> sends (fst (snd (daily_schedule_announcer lib ev bd))) = []
      \<and> last_announced_date_utc (fst (daily_schedule_announcer lib ev bd)) =
          last_announced_date_utc bd)
   \<and> ((\<forall>d' \<in> set (trigger_days es). d' = d)
    \<longrightarrow> length (sends (snd (run_events lib owner es bd))) \<le> 1)"
proof -
  have a: "truthy_id (announcement_channel_id bd)
      \<and> last_announced_date_utc bd \<noteq> Some (utc_date_str lib (clock ev 1))
      \<and> get_channel ev (the (announcement_channel_id bd)) \<noteq> None
      \<and> channel_send ev (the (announcement_channel_id bd))
           (announcement lib (clock ev 2) (streams (fst (clean_old_streams lib ev 0 bd)))) = None
    \<longrightarrow> snd (snd (daily_schedule_announcer lib ev bd)) = Announced
      \<and> sends (fst (snd (daily_schedule_announcer lib ev bd))) =
          [(the (announcement_channel_id bd),
            announcement lib (clock ev 2) (streams (fst (clean_old_streams lib ev 0 bd))))]
      \<and> last_announced_date_utc (fst (daily_schedule_announcer lib ev bd)) =
          Some (utc_date_str lib (clock ev 1))"
    by (simp add: announcer_eq Let_def announce_sends announce_last announce_outcome
        clean_old_streams_def clean_old_streams_sends)
  have b: "truthy_id (announcement_channel_id bd)
      \<and> last_announced_date_utc bd = Some (utc_date_str lib (clock ev 1))
    \<longrightarrow> snd (snd (daily_schedule_announcer lib ev bd)) = Suppressed
      \<and> sends (fst (snd (daily_schedule_announcer lib ev bd))) = []
      \<and> last_announced_date_utc (fst (daily_schedule_announcer lib ev bd)) =
          last_announced_date_utc bd"
    by (simp add: announcer_eq Let_def clean_old_streams_sends sends_append sends_simps
        clean_keeps_fields)
  from a b run_events_sends [of es d lib owner bd] show ?thesis by blast
qed

lemma ex_announcement:
  "announcement ex_lib 1728000000000002 [ex_party, ex_bad_date, ex_launch] =
     DailyScheduleUpdate [(1893492000, ''Party''), (1893492000, ''Launch'')]"
  by (simp add: announcement_def listing_eq upcoming_entries_def ex_localize)
     (simp add: ex_party_def ex_launch_def)

lemma ex_announcer:
  "daily_schedule_announcer ex_lib ex_env ex_data =
     (ex_data\<lparr>streams := [ex_party, ex_bad_date, ex_launch],
              last_announced_date_utc := Some ''2024-10-04''\<rparr>,
      [Print (WarnCleanup ex_bad_date ValueError),
       Save (ex_data\<lparr>streams := [ex_party, ex_bad_date, ex_launch]\<rparr>),
       Print (CleanedUp 1),
       Print (SkipMalformedAnnounce ex_bad_date),
       Send 42 (DailyScheduleUpdate [(1893492000, ''Party''), (1893492000, ''Launch'')]),
       Save (ex_data\<lparr>streams := [ex_party, ex_bad_date, ex_launch],
                      last_announced_date_utc := Some ''2024-10-04''\<rparr>)],
      Announced)"
  apply (simp add: announcer_eq)
  apply (simp add: ex_env_def ex_clean Let_def)
  apply (simp add: ex_data_def truthy_id_def utc_date_str_def utc_day_def ex_lib_def)
  apply (simp add: announce_eq ex_announcement [simplified ex_lib_def] skip_warnings_def ex_localize [simplified ex_lib_def])
  done


lemma ex_trigger_day: "utc_date_str ex_lib (clock ex_env 1) = ''2024-10-04''"
  by (simp add: utc_date_str_def utc_day_def ex_env_def ex_lib_def)

theorem announce_once_per_day_witness:
  "truthy_id (announcement_channel_id ex_data)
   \<and> last_announced_date_utc ex_data \<noteq> Some (utc_date_str ex_lib (clock ex_env 1))
   \<and> get_channel ex_env (the (announcement_channel_id ex_data)) \<noteq> None
   \<and> snd (snd (daily_schedule_announcer ex_lib ex_env ex_data)) = Announced
   \<and> sends (fst (snd (daily_schedule_announcer ex_lib ex_env ex_data))) =
       [(42, DailyScheduleUpdate [(1893492000, ''Party''), (1893492000, ''Launch'')])]
   \<and> last_announced_date_utc (fst (daily_schedule_announcer ex_lib ex_env ex_data)) =
       Some ''2024-10-04''
   \<and> truthy_id (announcement_channel_id ex_data_announced)
   \<and> last_announced_date_utc ex_data_announced = Some (utc_date_str ex_lib (clock ex_env 1))
   \<and> snd (snd (daily_schedule_announcer ex_lib ex_env ex_data_announced)) = Suppressed
   \<and> sends (fst (snd (daily_schedule_announcer ex_lib ex_env ex_data_announced))) = []
   \<and> trigger_days ex_events = [20000, 20000]
   \<and> length (sends (snd (run_events ex_lib 1 ex_events ex_data))) \<le> 1"
  using announce_once_per_day [of ex_data ex_lib ex_env ex_events 20000 1]
    announce_once_per_day [of ex_data_announced ex_lib ex_env ex_events 20000 1]
  by (simp add: ex_trigger_day ex_announcer sends_simps)
     (simp add: ex_data_announced_def ex_data_def truthy_id_def ex_events_def ex_env_def utc_day_def)

section \<open>Send failures and the missing channel\<close>

lemma ex_clean_empty:
  "clean_old_streams_at ex_lib now ex_data_empty = (ex_data_empty, [Print NoOldStreams])"
  by (simp add: clean_old_streams_at_eq ex_data_empty_def cleanup_warnings_def)

lemma ex_env_simps:
  "clock ex_env n = 1728000000000000 + int n"
  "get_channel ex_env 42 = Some TextChannel"
  "channel_send ex_env c m = None"
  "clock ex_env_forbidden n = 1728000000000000 + int n"
  "get_channel ex_env_forbidden 42 = Some TextChannel"
  "channel_send ex_env_forbidden c m = Some Forbidden"
  by (simp_all add: ex_env_def ex_env_forbidden_def)

lemma ex_data_simps:
  "announcement_channel_id ex_data = Some 42"
  "last_announced_date_utc ex_data = None"
  "announcement_channel_id ex_data_empty = Some 42"
  "last_announced_date_utc ex_data_empty = None"
  "streams ex_data_empty = []"
  "announcement_channel_id ex_data_no_channel = None"
  "streams ex_data_no_channel = streams ex_data"
  by (simp_all add: ex_data_def ex_data_empty_def ex_data_no_channel_def)

lemma ex_announcer_forbidden_empty:
  "daily_schedule_announcer ex_lib ex_env_forbidden ex_data_empty =
     (ex_data_empty, [Print NoOldStreams], Raised Forbidden)"
  by (simp add: announcer_eq ex_env_simps ex_clean_empty ex_data_simps truthy_id_def Let_def
      announce_eq listing_Nil_iff upcoming_entries_def skip_warnings_def)

lemma ex_announcer_forbidden:
  "daily_schedule_announcer ex_lib ex_env_forbidden ex_data =
     (ex_data\<lparr>streams := [ex_party, ex_bad_date, ex_launch]\<rparr>,
      [Print (WarnCleanup ex_bad_date ValueError),
       Save (ex_data\<lparr>streams := [ex_party, ex_bad_date, ex_launch]\<rparr>),
       Print (CleanedUp 1),
       Print (SkipMalformedAnnounce ex_bad_date),
       Print (NoSendPermission 42)],
      Skipped)"
  by (simp add: announcer_eq ex_env_simps ex_clean ex_data_simps truthy_id_def Let_def
      announce_eq listing_Nil_iff upcoming_entries_def skip_warnings_def ex_localize)

text \<open>
  C5. A failed send must leave \<open>last_announced_date_utc\<close> alone, be logged, and end the
  invocation as \<open>Skipped\<close>. With streams to list the code does so. With no upcoming
  stream the send of the notice stands outside any \<open>try\<close>: when the channel refuses the
  message the exception leaves \<open>daily_schedule_announcer\<close>, nothing is logged and the
  invocation does not end as \<open>Skipped\<close>.
\<close>

theorem announcer_send_failure_empty_list_raises:
  "channel_send ex_env_forbidden 42 NoUpcomingStreams = Some Forbidden
   \<and> daily_schedule_announcer ex_lib ex_env_forbidden ex_data_empty =
       (ex_data_empty, [Print NoOldStreams], Raised Forbidden)
   \<and> snd (snd (daily_schedule_announcer ex_lib ex_env_forbidden ex_data)) = Skipped
   \<and> prints (fst (snd (daily_schedule_announcer ex_lib ex_env_forbidden ex_data))) =
       [WarnCleanup ex_bad_date ValueError, CleanedUp 1, SkipMalformedAnnounce ex_bad_date,
        NoSendPermission 42]"
  by (simp add: ex_announcer_forbidden_empty ex_announcer_forbidden ex_env_simps prints_simps)

lemma ex_clean_no_channel:
  "clean_old_streams_at ex_lib 1728000000000000 ex_data_no_channel =
     (ex_data_no_channel\<lparr>streams := [ex_party, ex_bad_date, ex_launch]\<rparr>,
      [Print (WarnCleanup ex_bad_date ValueError),
       Save (ex_data_no_channel\<lparr>streams := [ex_party, ex_bad_date, ex_launch]\<rparr>),
       Print (CleanedUp 1)])"
  by (simp add: clean_old_streams_at_eq ex_data_no_channel_def ex_data_def expired_def
      ex_localize cleanup_warnings_def)

text \<open>
  C7, as stated, fails: with no announcement channel configured the announcer has still
  pruned the store, and saved it, before it looks for the channel.
\<close>

theorem announcer_no_channel_counterexample:
  "announcement_channel_id ex_data_no_channel = None
   \<and> streams ex_data_no_channel = [ex_party, ex_old, ex_bad_date, ex_launch]
   \<and> streams (fst (daily_schedule_announcer ex_lib ex_env ex_data_no_channel)) =
       [ex_party, ex_bad_date, ex_launch]
   \<and> saves (fst (snd (daily_schedule_announcer ex_lib ex_env ex_data_no_channel))) =
       [ex_data_no_channel\<lparr>streams := [ex_party, ex_bad_date, ex_launch]\<rparr>]"
  by (simp add: announcer_eq ex_env_simps ex_clean_no_channel ex_data_simps truthy_id_def Let_def
      saves_simps)
     (simp add: ex_data_def)

text \<open>
  C7, amended. With no announcement channel configured (the identifier is \<open>None\<close> or
  \<open>0\<close>) the invocation is the initial prune and one log line, and ends \<open>Skipped\<close>: no
  message is sent, the user timezones, the channel and \<open>last_announced_date_utc\<close> are as
  before, the streams are the ones not expired at the first clock reading, and when no
  stream is expired \<open>bot_data\<close> is unchanged and nothing is saved.
\<close>

theorem announcer_no_channel_only_prunes:
  "\<not> truthy_id (announcement_channel_id bd) \<longrightarrow>
     daily_schedule_announcer lib ev bd =
       (fst (clean_old_streams lib ev 0 bd),
        snd (clean_old_streams lib ev 0 bd) @ [Print NoAnnouncementChannel], Skipped)
     \<and> sends (fst (snd (daily_schedule_announcer lib ev bd))) = []
     \<and> user_timezones (fst (daily_schedule_announcer lib ev bd)) = user_timezones bd
     \<and> announcement_channel_id (fst (daily_schedule_announcer lib ev bd)) = announcement_channel_id bd
     \<and> last_announced_date_utc (fst (daily_schedule_announcer lib ev bd)) = last_announced_date_utc bd
     \<and> streams (fst (daily_schedule_announcer lib ev bd)) =
         filter (\<lambda>st. \<not> expired lib (clock ev 0) st) (streams bd)
     \<and> (\<not> list_ex (expired lib (clock ev 0)) (streams bd) \<longrightarrow>
          fst (daily_schedule_announcer lib ev bd) = bd
          \<and> saves (fst (snd (daily_schedule_announcer lib ev bd))) = [])"
  by (simp add: announcer_eq Let_def clean_old_streams_def clean_old_streams_sends sends_append
      sends_simps clean_keeps_fields streams_clean)
     (simp add: clean_old_streams_at_eq saves_append saves_cleanup_warnings saves_simps)


lemma ex_clean_zero_channel:
  "clean_old_streams_at ex_lib 1728000000000000 ex_data_zero_channel =
     (ex_data_zero_channel, [Print NoOldStreams])"
  by (simp add: clean_old_streams_at_eq ex_data_zero_channel_def expired_def ex_localize
      cleanup_warnings_def)

theorem announcer_no_channel_only_prunes_witness:
  "\<not> truthy_id (announcement_channel_id ex_data_no_channel)
   \<and> daily_schedule_announcer ex_lib ex_env ex_data_no_channel =
       (ex_data_no_channel\<lparr>streams := [ex_party, ex_bad_date, ex_launch]\<rparr>,
        [Print (WarnCleanup ex_bad_date ValueError),
         Save (ex_data_no_channel\<lparr>streams := [ex_party, ex_bad_date, ex_launch]\<rparr>),
         Print (CleanedUp 1),
         Print NoAnnouncementChannel],
        Skipped)
   \<and> \<not> truthy_id (announcement_channel_id ex_data_zero_channel)
   \<and> \<not> list_ex (expired ex_lib (clock ex_env 0)) (streams ex_data_zero_channel)
   \<and> daily_schedule_announcer ex_lib ex_env ex_data_zero_channel =
       (ex_data_zero_channel, [Print NoOldStreams, Print NoAnnouncementChannel], Skipped)"
proof -
  have a: "\<not> truthy_id (announcement_channel_id ex_data_no_channel)"
    by (simp add: ex_data_simps truthy_id_def)
  have b: "\<not> truthy_id (announcement_channel_id ex_data_zero_channel)"
    by (simp add: ex_data_zero_channel_def truthy_id_def)
  have c: "\<not> list_ex (expired ex_lib (clock ex_env 0)) (streams ex_data_zero_channel)"
    by (simp add: ex_data_zero_channel_def ex_env_simps expired_def ex_localize)
  from a announcer_no_channel_only_prunes [of ex_data_no_channel ex_lib ex_env]
  have "daily_schedule_announcer ex_lib ex_env ex_data_no_channel =
       (ex_data_no_channel\<lparr>streams := [ex_party, ex_bad_date, ex_launch]\<rparr>,
        [Print (WarnCleanup ex_bad_date ValueError),
         Save (ex_data_no_channel\<lparr>streams := [ex_party, ex_bad_date, ex_launch]\<rparr>),
         Print (CleanedUp 1),
         Print NoAnnouncementChannel],
        Skipped)"
    by (simp add: clean_old_streams_def ex_env_simps ex_clean_no_channel)
  moreover from b announcer_no_channel_only_prunes [of ex_data_zero_channel ex_lib ex_env]
  have "daily_schedule_announcer ex_lib ex_env ex_data_zero_channel =
       (ex_data_zero_channel, [Print NoOldStreams, Print NoAnnouncementChannel], Skipped)"
    by (simp add: clean_old_streams_def ex_env_simps ex_clean_zero_channel)
  ultimately show ?thesis using a b c by simp
qed

section \<open>Clock readings\<close>

lemma on_message_schedule:
  "on_message lib owner ev ex_schedule bd = schedule_command lib ev bd"
  by (simp add: on_message_def ex_schedule_def lower_def lower_char_def Let_def)

lemma fixed_clock_simps:
  "clock (fixed_clock ev now) n = now"
  "get_channel (fixed_clock ev now) = get_channel ev"
  "channel_send (fixed_clock ev now) = channel_send ev"
  by (simp_all add: fixed_clock_def)

lemma ex_straddle_clock:
  "clock ex_env_straddle 0 = 1893491999999990"
  "clock ex_env_straddle (Suc n) = 1893492000000010"
  "clock ex_env_straddle 1 = 1893492000000010"
  "clock ex_env_straddle 2 = 1893492000000010"
  by (simp_all add: ex_env_straddle_def)

lemma ex_clean_launch:
  "clean_old_streams_at ex_lib now ex_data_launch =
     (if now < 1893492000000000 then (ex_data_launch, [Print NoOldStreams])
      else (ex_data_launch\<lparr>streams := []\<rparr>,
            [Save (ex_data_launch\<lparr>streams := []\<rparr>), Print (CleanedUp 1)]))"
  by (simp add: clean_old_streams_at_eq ex_data_launch_def expired_def ex_localize
      cleanup_warnings_def not_le)

lemma ex_listing_launch:
  "listing ex_lib now [ex_launch] =
     (if now < 1893492000000000 then [(1893492000, ''Launch'')] else [])"
  by (simp add: listing_eq upcoming_entries_def ex_localize) (simp add: ex_launch_def)

lemma ex_launch_simps:
  "streams ex_data_launch = [ex_launch]"
  "description ex_launch = ''Launch''"
  "skip_warnings ex_lib wv wt [ex_launch] = []"
  by (simp_all add: ex_data_launch_def ex_launch_def skip_warnings_def
      ex_localize [unfolded ex_launch_def])

lemma streams_update_Nil: "streams (bd\<lparr>streams := []\<rparr>) = []"
  by simp

lemma ex_schedule_fixed:
  "schedule_command ex_lib (fixed_clock ev now) ex_data_launch =
     (if now < 1893492000000000
      then (ex_data_launch,
            [Print NoOldStreams, Reply (UpcomingSchedule [(1893492000, ''Launch'')])])
      else (ex_data_launch\<lparr>streams := []\<rparr>,
            [Save (ex_data_launch\<lparr>streams := []\<rparr>), Print (CleanedUp 1),
             Reply NoUpcomingStreams]))"
  by (simp add: schedule_command_eq clean_old_streams_def fixed_clock_simps ex_clean_launch
      ex_listing_launch ex_launch_simps)
     (simp add: listing_eq upcoming_entries_def skip_warnings_def)

lemma ex_schedule_straddle:
  "schedule_command ex_lib ex_env_straddle ex_data_launch =
     (ex_data_launch, [Print NoOldStreams, Reply NoUpcomingStreams])"
  by (simp add: schedule_command_eq clean_old_streams_def ex_straddle_clock ex_clean_launch
      ex_listing_launch ex_launch_simps)

text \<open>
  C4, as stated, fails. The \<open>schedule\<close> command reads the clock in \<open>clean_old_streams\<close>
  and again for the list. With a stream whose instant lies between the two readings the
  stream stays in the store (it was not yet past at the first reading) and is missing
  from the reply (it was past at the second): no single reading gives this outcome.
\<close>

theorem single_clock_reading_counterexample:
  "on_message ex_lib 1 ex_env_straddle ex_schedule ex_data_launch =
       (ex_data_launch, [Print NoOldStreams, Reply NoUpcomingStreams])
   \<and> \<not> (\<exists>now. on_message ex_lib 1 (fixed_clock ex_env_straddle now) ex_schedule ex_data_launch =
              on_message ex_lib 1 ex_env_straddle ex_schedule ex_data_launch)"
proof -
  have "ex_data_launch\<lparr>streams := []\<rparr> \<noteq> ex_data_launch"
    by (simp add: ex_data_launch_def)
  then show ?thesis
    by (simp add: on_message_schedule ex_schedule_straddle ex_schedule_fixed)
qed

lemma upcoming_entries_pruned:
  "t \<le> now \<Longrightarrow>
   upcoming_entries lib now (filter (\<lambda>st. \<not> expired lib t st) sts) = upcoming_entries lib now sts"
  by (induction sts) (auto simp: upcoming_entries_def expired_def split: sum.splits)

lemma skip_warnings_pruned:
  "skip_warnings lib wv wt (filter (\<lambda>st. \<not> expired lib t st) sts) = skip_warnings lib wv wt sts"
  by (induction sts) (auto simp: skip_warnings_def expired_def split: sum.splits loc_error.splits)

lemma listing_pruned:
  "t \<le> now \<Longrightarrow>
   listing lib now (streams (fst (clean_old_streams_at lib t bd))) = listing lib now (streams bd)"
  by (simp add: listing_eq streams_clean upcoming_entries_pruned)

lemma replies_clean: "replies (snd (clean_old_streams_at lib now bd)) = []"
proof -
  have "replies (cleanup_warnings lib sts) = []" for sts
    by (induction sts) (simp_all add: cleanup_warnings_def replies_simps split: sum.splits)
  then show ?thesis
    by (simp add: clean_old_streams_at_eq replies_append replies_simps)
qed

lemma replies_skip_warnings: "replies (skip_warnings lib wv wt sts) = []"
  by (induction sts) (simp_all add: skip_warnings_def replies_simps split: sum.splits loc_error.splits)

lemma replies_schedule:
  "replies (snd (schedule_command lib ev bd)) =
     [if listing lib (clock ev 1) (streams (fst (clean_old_streams_at lib (clock ev 0) bd))) = []
      then NoUpcomingStreams
      else UpcomingSchedule
             (listing lib (clock ev 1) (streams (fst (clean_old_streams_at lib (clock ev 0) bd))))]"
  by (simp add: schedule_command_eq clean_old_streams_def replies_append replies_clean
      replies_skip_warnings replies_simps)

lemma announcement_pruned:
  "t \<le> now \<Longrightarrow>
   announcement lib now (streams (fst (clean_old_streams_at lib t bd))) =
     announcement lib now (streams bd)"
  by (simp add: announcement_def listing_pruned)

lemma announcer_streams:
  "streams (fst (daily_schedule_announcer lib ev bd)) =
     streams (fst (clean_old_streams_at lib (clock ev 0) bd))"
  "user_timezones (fst (daily_schedule_announcer lib ev bd)) = user_timezones bd"
  "announcement_channel_id (fst (daily_schedule_announcer lib ev bd)) = announcement_channel_id bd"
  by (simp_all add: announcer_eq Let_def announce_eq clean_keeps_fields split: option.splits)

lemma announcer_against_listing_reading:
  assumes le: "clock ev 0 \<le> clock ev 2"
    and day: "utc_day (clock ev 1) = utc_day (clock ev 2)"
  shows "snd (snd (daily_schedule_announcer lib ev bd)) =
           snd (snd (daily_schedule_announcer lib (fixed_clock ev (clock ev 2)) bd))"
    and "sends (fst (snd (daily_schedule_announcer lib ev bd))) =
           sends (fst (snd (daily_schedule_announcer lib (fixed_clock ev (clock ev 2)) bd)))"
    and "last_announced_date_utc (fst (daily_schedule_announcer lib ev bd)) =
           last_announced_date_utc (fst (daily_schedule_announcer lib (fixed_clock ev (clock ev 2)) bd))"
proof -
  have d: "utc_date_str lib (clock ev (Suc 0)) = utc_date_str lib (clock ev 2)"
    using day by (simp add: utc_date_str_def)
  have m: "announcement lib (clock ev 2) (streams (fst (clean_old_streams_at lib (clock ev 0) bd))) =
      announcement lib (clock ev 2) (streams bd)"
    using le by (rule announcement_pruned)
  have m': "announcement lib (clock ev 2) (streams (fst (clean_old_streams_at lib (clock ev 2) bd))) =
      announcement lib (clock ev 2) (streams bd)"
    by (rule announcement_pruned) simp
  have l: "listing lib (clock ev 2) (streams (fst (clean_old_streams_at lib (clock ev 0) bd))) =
      listing lib (clock ev 2) (streams bd)"
    using le by (rule listing_pruned)
  have l': "listing lib (clock ev 2) (streams (fst (clean_old_streams_at lib (clock ev 2) bd))) =
      listing lib (clock ev 2) (streams bd)"
    by (rule listing_pruned) simp
  show "snd (snd (daily_schedule_announcer lib ev bd)) =
           snd (snd (daily_schedule_announcer lib (fixed_clock ev (clock ev 2)) bd))"
    by (simp add: announcer_eq Let_def fixed_clock_simps d announce_outcome m m' l l'
        split: option.splits)
  show "sends (fst (snd (daily_schedule_announcer lib ev bd))) =
           sends (fst (snd (daily_schedule_announcer lib (fixed_clock ev (clock ev 2)) bd)))"
    by (simp add: announcer_eq Let_def fixed_clock_simps d announce_sends m m'
        clean_old_streams_sends sends_append sends_simps)
  show "last_announced_date_utc (fst (daily_schedule_announcer lib ev bd)) =
           last_announced_date_utc (fst (daily_schedule_announcer lib (fixed_clock ev (clock ev 2)) bd))"
    by (simp add: announcer_eq Let_def fixed_clock_simps d announce_last m m' clean_keeps_fields)
qed

lemma ex_straddle_env:
  "get_channel ex_env_straddle 42 = Some TextChannel"
  "channel_send ex_env_straddle c m = None"
  "utc_date_str ex_lib 1893492000000010 = ''another day''"
  by (simp_all add: ex_env_straddle_def ex_env_def utc_date_str_def utc_day_def ex_lib_def)

lemma ex_launch_data:
  "announcement_channel_id ex_data_launch = Some 42"
  "last_announced_date_utc ex_data_launch = None"
  by (simp_all add: ex_data_launch_def)

lemma ex_announcer_straddle:
  "daily_schedule_announcer ex_lib ex_env_straddle ex_data_launch =
     (ex_data_launch\<lparr>last_announced_date_utc := Some ''another day''\<rparr>,
      [Print NoOldStreams, Send 42 NoUpcomingStreams,
       Save (ex_data_launch\<lparr>last_announced_date_utc := Some ''another day''\<rparr>)],
      Announced)"
  by (simp add: announcer_eq Let_def ex_straddle_clock ex_clean_launch ex_launch_data
      truthy_id_def ex_straddle_env announce_eq announcement_def ex_launch_simps
      ex_listing_launch)

lemma ex_midnight_simps:
  "clock ex_env_midnight 0 = 1728086399999999"
  "clock ex_env_midnight (Suc 0) = 1728086399999999"
  "clock ex_env_midnight 2 = 1728086400000000"
  "get_channel ex_env_midnight 42 = Some TextChannel"
  "channel_send ex_env_midnight c m = None"
  "get_channel (fixed_clock ex_env_midnight t) 42 = Some TextChannel"
  "utc_date_str ex_lib 1728086399999999 = ''2024-10-04''"
  "utc_date_str ex_lib 1728086400000000 = ''2024-10-05''"
  "announcement_channel_id ex_data_midnight = Some 42"
  "last_announced_date_utc ex_data_midnight = Some ''2024-10-05''"
  "streams ex_data_midnight = [ex_launch]"
  by (simp_all add: ex_env_midnight_def ex_env_def fixed_clock_def utc_date_str_def utc_day_def
      ex_lib_def ex_data_midnight_def ex_data_launch_def)

text \<open>
  The announcer computes today's date from its second reading and the list from its
  third. When midnight falls between the two, a run against the single instant of the
  third reading need not end as the invocation does: here the invocation announces, and
  the run against the third reading finds the day already announced.
\<close>

lemma announcer_across_midnight:
  "clock ex_env_midnight 0 \<le> clock ex_env_midnight 2
   \<and> utc_day (clock ex_env_midnight 1) \<noteq> utc_day (clock ex_env_midnight 2)
   \<and> snd (snd (daily_schedule_announcer ex_lib ex_env_midnight ex_data_midnight)) = Announced
   \<and> snd (snd (daily_schedule_announcer ex_lib
         (fixed_clock ex_env_midnight (clock ex_env_midnight 2)) ex_data_midnight)) = Suppressed"
proof -
  have a: "clock ex_env_midnight 0 \<le> clock ex_env_midnight 2"
    "utc_day (clock ex_env_midnight 1) \<noteq> utc_day (clock ex_env_midnight 2)"
    by (simp_all add: ex_env_midnight_def utc_day_def)
  have b: "snd (snd (daily_schedule_announcer ex_lib ex_env_midnight ex_data_midnight)) = Announced"
    by (simp add: announcer_eq Let_def ex_midnight_simps truthy_id_def announce_outcome)
  have c: "snd (snd (daily_schedule_announcer ex_lib
         (fixed_clock ex_env_midnight (clock ex_env_midnight 2)) ex_data_midnight)) = Suppressed"
    by (simp add: announcer_eq Let_def fixed_clock_simps ex_midnight_simps truthy_id_def)
  show ?thesis by (intro conjI a b c)
qed

text \<open>
  C4, amended. Each loop reads the clock once and compares every stream with that one
  reading: \<open>clean_old_streams\<close> for the prune, and the listing loop for the list; the
  \<open>schedule\<close> command so takes two readings and the announcer three (the second for
  today's date). When the readings of an invocation coincide, its outcome is that of a
  run against that single instant. When the listing's reading is not before the
  prune's, the list the \<open>schedule\<close> command replies is the one a run against the single
  instant of the listing's reading replies, while the store is pruned as at the first
  reading. The announcer always leaves the store pruned as at its first reading; when
  its listing's reading is not before the prune's and its date reading falls on the
  same UTC day as the listing's reading, it ends in the same way, sends the same
  messages and leaves the same \<open>last_announced_date_utc\<close> as a run against the single
  instant of the listing's reading.
\<close>

theorem clock_read_once_per_loop:
  "clean_old_streams lib ev k bd = clean_old_streams lib (fixed_clock ev (clock ev k)) k bd
   \<and> (clock ev 1 = clock ev 0 \<longrightarrow>
        schedule_command lib ev bd = schedule_command lib (fixed_clock ev (clock ev 0)) bd)
   \<and> (clock ev 1 = clock ev 0 \<and> clock ev 2 = clock ev 0 \<longrightarrow>
        daily_schedule_announcer lib ev bd =
          daily_schedule_announcer lib (fixed_clock ev (clock ev 0)) bd)
   \<and> (clock ev 0 \<le> clock ev 1 \<longrightarrow>
        replies (snd (schedule_command lib ev bd)) =
          replies (snd (schedule_command lib (fixed_clock ev (clock ev 1)) bd))
        \<and> fst (schedule_command lib ev bd) = fst (clean_old_streams_at lib (clock ev 0) bd))
   \<and> (clock ev 0 \<le> clock ev 2 \<longrightarrow>
        announcement lib (clock ev 2) (streams (fst (clean_old_streams lib ev 0 bd))) =
          announcement lib (clock ev 2) (streams bd))
   \<and> streams (fst (daily_schedule_announcer lib ev bd)) =
        streams (fst (clean_old_streams_at lib (clock ev 0) bd))
   \<and> user_timezones (fst (daily_schedule_announcer lib ev bd)) = user_timezones bd
   \<and> announcement_channel_id (fst (daily_schedule_announcer lib ev bd)) =
        announcement_channel_id bd
   \<and> (clock ev 0 \<le> clock ev 2 \<and> utc_day (clock ev 1) = utc_day (clock ev 2) \<longrightarrow>
        snd (snd (daily_schedule_announcer lib ev bd)) =
          snd (snd (daily_schedule_announcer lib (fixed_clock ev (clock ev 2)) bd))
        \<and> sends (fst (snd (daily_schedule_announcer lib ev bd))) =
          sends (fst (snd (daily_schedule_announcer lib (fixed_clock ev (clock ev 2)) bd)))
        \<and> last_announced_date_utc (fst (daily_schedule_announcer lib ev bd)) =
          last_announced_date_utc
            (fst (daily_schedule_announcer lib (fixed_clock ev (clock ev 2)) bd)))"
proof -
  have a: "clean_old_streams lib ev k bd = clean_old_streams lib (fixed_clock ev (clock ev k)) k bd"
    by (simp add: clean_old_streams_def fixed_clock_simps)
  have b: "clock ev 1 = clock ev 0 \<longrightarrow>
        schedule_command lib ev bd = schedule_command lib (fixed_clock ev (clock ev 0)) bd"
  proof
    assume h1: "clock ev 1 = clock ev 0"
    show "schedule_command lib ev bd = schedule_command lib (fixed_clock ev (clock ev 0)) bd"
      by (simp only: schedule_command_eq clean_old_streams_def fixed_clock_simps h1)
  qed
  have c: "clock ev 1 = clock ev 0 \<and> clock ev 2 = clock ev 0 \<longrightarrow>
        daily_schedule_announcer lib ev bd =
          daily_schedule_announcer lib (fixed_clock ev (clock ev 0)) bd"
  proof (intro impI, elim conjE)
    assume h1: "clock ev 1 = clock ev 0" and h2: "clock ev 2 = clock ev 0"
    show "daily_schedule_announcer lib ev bd =
          daily_schedule_announcer lib (fixed_clock ev (clock ev 0)) bd"
      by (simp only: announcer_eq announce_eq fixed_clock_simps h1 h2)
  qed
  have d: "clock ev 0 \<le> clock ev 1 \<longrightarrow>
        replies (snd (schedule_command lib ev bd)) =
          replies (snd (schedule_command lib (fixed_clock ev (clock ev 1)) bd))
        \<and> fst (schedule_command lib ev bd) = fst (clean_old_streams_at lib (clock ev 0) bd)"
    by (simp add: replies_schedule fixed_clock_simps listing_pruned)
       (simp add: schedule_command_eq clean_old_streams_def)
  have e: "clock ev 0 \<le> clock ev 2 \<longrightarrow>
        announcement lib (clock ev 2) (streams (fst (clean_old_streams lib ev 0 bd))) =
          announcement lib (clock ev 2) (streams bd)"
    by (simp add: clean_old_streams_def announcement_pruned)
  have f: "clock ev 0 \<le> clock ev 2 \<and> utc_day (clock ev 1) = utc_day (clock ev 2) \<longrightarrow>
        snd (snd (daily_schedule_announcer lib ev bd)) =
          snd (snd (daily_schedule_announcer lib (fixed_clock ev (clock ev 2)) bd))
        \<and> sends (fst (snd (daily_schedule_announcer lib ev bd))) =
          sends (fst (snd (daily_schedule_announcer lib (fixed_clock ev (clock ev 2)) bd)))
        \<and> last_announced_date_utc (fst (daily_schedule_announcer lib ev bd)) =
          last_announced_date_utc
            (fst (daily_schedule_announcer lib (fixed_clock ev (clock ev 2)) bd))"
    using announcer_against_listing_reading [of ev lib bd] by blast
  show ?thesis by (intro conjI a b c d e f announcer_streams)
qed

theorem clock_read_once_per_loop_witness:
  "clock (fixed_clock ex_env 1728000000000000) 1 = clock (fixed_clock ex_env 1728000000000000) 0
   \<and> clock (fixed_clock ex_env 1728000000000000) 2 = clock (fixed_clock ex_env 1728000000000000) 0
   \<and> daily_schedule_announcer ex_lib (fixed_clock ex_env 1728000000000000) ex_data =
       daily_schedule_announcer ex_lib
         (fixed_clock (fixed_clock ex_env 1728000000000000)
            (clock (fixed_clock ex_env 1728000000000000) 0)) ex_data
   \<and> clock ex_env_straddle 0 \<le> clock ex_env_straddle 1
   \<and> clock ex_env_straddle 0 \<le> clock ex_env_straddle 2
   \<and> utc_day (clock ex_env_straddle 1) = utc_day (clock ex_env_straddle 2)
   \<and> replies (snd (schedule_command ex_lib
         (fixed_clock ex_env_straddle (clock ex_env_straddle 1)) ex_data_launch)) =
       [NoUpcomingStreams]
   \<and> fst (schedule_command ex_lib ex_env_straddle ex_data_launch) = ex_data_launch
   \<and> announcement ex_lib (clock ex_env_straddle 2)
        (streams (fst (clean_old_streams ex_lib ex_env_straddle 0 ex_data_launch))) =
       NoUpcomingStreams
   \<and> streams (fst (daily_schedule_announcer ex_lib ex_env_straddle ex_data_launch)) = [ex_launch]
   \<and> snd (snd (daily_schedule_announcer ex_lib
         (fixed_clock ex_env_straddle (clock ex_env_straddle 2)) ex_data_launch)) = Announced
   \<and> sends (fst (snd (daily_schedule_announcer ex_lib
         (fixed_clock ex_env_straddle (clock ex_env_straddle 2)) ex_data_launch))) =
       [(42, NoUpcomingStreams)]
   \<and> last_announced_date_utc (fst (daily_schedule_announcer ex_lib
         (fixed_clock ex_env_straddle (clock ex_env_straddle 2)) ex_data_launch)) =
       Some ''another day''"
proof -
  have a1: "clock (fixed_clock ex_env 1728000000000000) 1 =
        clock (fixed_clock ex_env 1728000000000000) 0"
    and a2: "clock (fixed_clock ex_env 1728000000000000) 2 =
        clock (fixed_clock ex_env 1728000000000000) 0"
    by (simp_all add: fixed_clock_simps)
  note a = conjI [OF a1 a2]
  have b1: "clock ex_env_straddle 0 \<le> clock ex_env_straddle 1"
    and b2: "clock ex_env_straddle 0 \<le> clock ex_env_straddle 2"
    by (simp_all add: ex_env_straddle_def)
  note b = conjI [OF b1 b2]
  have b': "utc_day (clock ex_env_straddle 1) = utc_day (clock ex_env_straddle 2)"
    by (simp add: ex_env_straddle_def)
  have c: "replies (snd (schedule_command ex_lib ex_env_straddle ex_data_launch)) =
      [NoUpcomingStreams]"
    "announcement ex_lib (clock ex_env_straddle 2) (streams ex_data_launch) = NoUpcomingStreams"
    "fst (clean_old_streams_at ex_lib (clock ex_env_straddle 0) ex_data_launch) = ex_data_launch"
    by (simp_all add: ex_schedule_straddle replies_simps announcement_def ex_launch_simps
        ex_listing_launch ex_clean_launch ex_straddle_clock)
  have r: "snd (snd (daily_schedule_announcer ex_lib ex_env_straddle ex_data_launch)) = Announced"
    "sends (fst (snd (daily_schedule_announcer ex_lib ex_env_straddle ex_data_launch))) =
       [(42, NoUpcomingStreams)]"
    "last_announced_date_utc (fst (daily_schedule_announcer ex_lib ex_env_straddle ex_data_launch)) =
       Some ''another day''"
    by (simp_all add: ex_announcer_straddle sends_simps)
  note t1 = clock_read_once_per_loop [of ex_lib "fixed_clock ex_env 1728000000000000" 0 ex_data]
  note t2 = clock_read_once_per_loop [of ex_lib ex_env_straddle 0 ex_data_launch]
  note d = t1 [THEN conjunct2, THEN conjunct2, THEN conjunct1, THEN mp, OF a]
  note t2d = t2 [THEN conjunct2, THEN conjunct2, THEN conjunct2, THEN conjunct1, THEN mp, OF b1]
  note e = t2d [THEN conjunct1]
  note f = t2d [THEN conjunct2]
  note g = t2 [THEN conjunct2, THEN conjunct2, THEN conjunct2, THEN conjunct2, THEN conjunct1,
      THEN mp, OF b2]
  note h = t2 [THEN conjunct2, THEN conjunct2, THEN conjunct2, THEN conjunct2, THEN conjunct2,
      THEN conjunct1]
  note t2f = t2 [THEN conjunct2, THEN conjunct2, THEN conjunct2, THEN conjunct2, THEN conjunct2,
      THEN conjunct2, THEN conjunct2, THEN conjunct2, THEN mp, OF conjI [OF b2 b']]
  note i = t2f [THEN conjunct1]
  note j = t2f [THEN conjunct2, THEN conjunct1]
  note k = t2f [THEN conjunct2, THEN conjunct2]
  from e c(1) have e': "replies (snd (schedule_command ex_lib
         (fixed_clock ex_env_straddle (clock ex_env_straddle 1)) ex_data_launch)) =
       [NoUpcomingStreams]"
    by simp
  from f c(3) have f': "fst (schedule_command ex_lib ex_env_straddle ex_data_launch) = ex_data_launch"
    by simp
  from g c(2) have g': "announcement ex_lib (clock ex_env_straddle 2)
        (streams (fst (clean_old_streams ex_lib ex_env_straddle 0 ex_data_launch))) =
       NoUpcomingStreams"
    by simp
  from h c(3) have h': "streams (fst (daily_schedule_announcer ex_lib ex_env_straddle
        ex_data_launch)) = [ex_launch]"
    by (simp add: ex_launch_simps)
  from i r(1) have i': "snd (snd (daily_schedule_announcer ex_lib
         (fixed_clock ex_env_straddle (clock ex_env_straddle 2)) ex_data_launch)) = Announced"
    by simp
  from j r(2) have j': "sends (fst (snd (daily_schedule_announcer ex_lib
         (fixed_clock ex_env_straddle (clock ex_env_straddle 2)) ex_data_launch))) =
       [(42, NoUpcomingStreams)]"
    by simp
  from k r(3) have k': "last_announced_date_utc (fst (daily_schedule_announcer ex_lib
         (fixed_clock ex_env_straddle (clock ex_env_straddle 2)) ex_data_launch)) =
       Some ''another day''"
    by simp
  show ?thesis
    by (intro conjI a1 a2 d b1 b2 b' e' f' g' h' i' j' k')
qed

section \<open>Removal by index\<close>

lemma remove_at_out_of_range:
  "index < 0 \<or> int (length (streams bd)) \<le> index \<Longrightarrow>
   remove_at index bd = (bd, [Reply InvalidStreamIndex])"
  by (auto simp: remove_at_def)

lemma remove_at_in_range:
  "0 \<le> index \<Longrightarrow> index < int (length (streams bd)) \<Longrightarrow>
   remove_at index bd =
     (bd\<lparr>streams := take (nat index) (streams bd) @ drop (Suc (nat index)) (streams bd)\<rparr>,
      [Save (bd\<lparr>streams := take (nat index) (streams bd) @ drop (Suc (nat index)) (streams bd)\<rparr>),
       Reply (RemovedStream (streams bd ! nat index))])"
  by (simp add: remove_at_def Let_def)

lemma mset_delete_nth:
  "i < length xs \<Longrightarrow> mset (take i xs @ drop (Suc i) xs) = mset xs - {#xs ! i#}"
proof -
  assume "i < length xs"
  then have "xs = take i xs @ xs ! i # drop (Suc i) xs"
    by (rule id_take_nth_drop)
  then have "mset xs = mset (take i xs @ drop (Suc i) xs) + {#xs ! i#}"
    by (metis add.commute add_mset_add_single mset.simps(2) mset_append union_mset_add_mset_right)
  then show ?thesis by simp
qed

lemma nth_delete_before:
  "i < length xs \<Longrightarrow> j < i \<Longrightarrow> (take i xs @ drop (Suc i) xs) ! j = xs ! j"
  by (simp add: nth_append)

lemma nth_delete_after:
  "i < length xs \<Longrightarrow> i \<le> j \<Longrightarrow> j < length xs - 1 \<Longrightarrow>
   (take i xs @ drop (Suc i) xs) ! j = xs ! Suc j"
  by (simp add: nth_append min_def)

lemma distinct_delete_nth:
  "i < length xs \<Longrightarrow> distinct xs \<Longrightarrow> xs ! i \<notin> set (take i xs @ drop (Suc i) xs)"
proof -
  assume i: "i < length xs" and d: "distinct xs"
  from i have "xs = take i xs @ xs ! i # drop (Suc i) xs"
    by (rule id_take_nth_drop)
  with d have "distinct (take i xs @ xs ! i # drop (Suc i) xs)"
    by simp
  then show ?thesis by auto
qed

text \<open>
  C6. Removal by index. With an index outside \<open>[0, len)\<close> the removal replies
  "Invalid stream index." and leaves \<open>bot_data\<close> as it is. With an index inside, the list
  loses exactly the stream at that index: the streams before it keep their index, the
  streams after it move down by one, the list is one shorter, the multiset of streams
  loses one copy of the removed stream (so a list of distinct streams no longer holds
  it), the new \<open>bot_data\<close> is saved and the other keys are not touched. The
  \<open>removestream\<close> command applies this removal to the store as \<open>clean_old_streams\<close>
  left it.
\<close>

theorem remove_at_index:
  "(index < 0 \<or> int (length (streams bd)) \<le> index \<longrightarrow>
      remove_at index bd = (bd, [Reply InvalidStreamIndex]))
   \<and> (0 \<le> index \<and> index < int (length (streams bd)) \<longrightarrow>
        streams (fst (remove_at index bd)) =
          take (nat index) (streams bd) @ drop (Suc (nat index)) (streams bd)
      \<and> length (streams (fst (remove_at index bd))) = length (streams bd) - 1
      \<and> (\<forall>j. j < nat index \<longrightarrow> streams (fst (remove_at index bd)) ! j = streams bd ! j)
      \<and> (\<forall>j. nat index \<le> j \<and> j < length (streams bd) - 1 \<longrightarrow>
            streams (fst (remove_at index bd)) ! j = streams bd ! Suc j)
      \<and> mset (streams (fst (remove_at index bd))) = mset (streams bd) - {#streams bd ! nat index#}
      \<and> (distinct (streams bd) \<longrightarrow>
            streams bd ! nat index \<notin> set (streams (fst (remove_at index bd))))
      \<and> snd (remove_at index bd) =
          [Save (fst (remove_at index bd)), Reply (RemovedStream (streams bd ! nat index))]
      \<and> user_timezones (fst (remove_at index bd)) = user_timezones bd
      \<and> announcement_channel_id (fst (remove_at index bd)) = announcement_channel_id bd
      \<and> last_announced_date_utc (fst (remove_at index bd)) = last_announced_date_utc bd)
   \<and> (args \<noteq> [] \<and> isdigit (args ! 0) \<longrightarrow>
        fst (removestream_command lib ev args bd) =
          fst (remove_at (py_int (args ! 0)) (fst (clean_old_streams lib ev 0 bd))))"
proof -
  have a: "index < 0 \<or> int (length (streams bd)) \<le> index \<longrightarrow>
      remove_at index bd = (bd, [Reply InvalidStreamIndex])"
    using remove_at_out_of_range by blast
  have b: "0 \<le> index \<and> index < int (length (streams bd)) \<longrightarrow>
        streams (fst (remove_at index bd)) =
          take (nat index) (streams bd) @ drop (Suc (nat index)) (streams bd)
      \<and> length (streams (fst (remove_at index bd))) = length (streams bd) - 1
      \<and> (\<forall>j. j < nat index \<longrightarrow> streams (fst (remove_at index bd)) ! j = streams bd ! j)
      \<and> (\<forall>j. nat index \<le> j \<and> j < length (streams bd) - 1 \<longrightarrow>
            streams (fst (remove_at index bd)) ! j = streams bd ! Suc j)
      \<and> mset (streams (fst (remove_at index bd))) = mset (streams bd) - {#streams bd ! nat index#}
      \<and> (distinct (streams bd) \<longrightarrow>
            streams bd ! nat index \<notin> set (streams (fst (remove_at index bd))))
      \<and> snd (remove_at index bd) =
          [Save (fst (remove_at index bd)), Reply (RemovedStream (streams bd ! nat index))]
      \<and> user_timezones (fst (remove_at index bd)) = user_timezones bd
      \<and> announcement_channel_id (fst (remove_at index bd)) = announcement_channel_id bd
      \<and> last_announced_date_utc (fst (remove_at index bd)) = last_announced_date_utc bd"
  proof (intro impI, elim conjE)
    assume lo: "0 \<le> index" and hi: "index < int (length (streams bd))"
    then have i: "nat index < length (streams bd)" by simp
    show "streams (fst (remove_at index bd)) =
          take (nat index) (streams bd) @ drop (Suc (nat index)) (streams bd)
      \<and> length (streams (fst (remove_at index bd))) = length (streams bd) - 1
      \<and> (\<forall>j. j < nat index \<longrightarrow> streams (fst (remove_at index bd)) ! j = streams bd ! j)
      \<and> (\<forall>j. nat index \<le> j \<and> j < length (streams bd) - 1 \<longrightarrow>
            streams (fst (remove_at index bd)) ! j = streams bd ! Suc j)
      \<and> mset (streams (fst (remove_at index bd))) = mset (streams bd) - {#streams bd ! nat index#}
      \<and> (distinct (streams bd) \<longrightarrow>
            streams bd ! nat index \<notin> set (streams (fst (remove_at index bd))))
      \<and> snd (remove_at index bd) =
          [Save (fst (remove_at index bd)), Reply (RemovedStream (streams bd ! nat index))]
      \<and> user_timezones (fst (remove_at index bd)) = user_timezones bd
      \<and> announcement_channel_id (fst (remove_at index bd)) = announcement_channel_id bd
      \<and> last_announced_date_utc (fst (remove_at index bd)) = last_announced_date_utc bd"
      unfolding remove_at_in_range [OF lo hi] fst_conv snd_conv
      using i mset_delete_nth [OF i] distinct_delete_nth [OF i]
        nth_delete_before [OF i] nth_delete_after [OF i]
      by (simp add: min_def)
  qed
  have c: "args \<noteq> [] \<and> isdigit (args ! 0) \<longrightarrow>
        fst (removestream_command lib ev args bd) =
          fst (remove_at (py_int (args ! 0)) (fst (clean_old_streams lib ev 0 bd)))"
    by (simp add: removestream_command_def case_prod_beta)
  from a b c show ?thesis by blast
qed

lemma on_message_removestream:
  "on_message lib 1 ev ex_removestream bd = removestream_command lib ev [''1''] bd"
  by (simp add: on_message_def ex_removestream_def lower_def lower_char_def Let_def)

lemma py_int_1: "isdigit ''1''" "py_int ''1'' = 1"
  by (simp_all add: isdigit_def is_digit_char_def py_int_def)


theorem remove_at_index_witness:
  "int (length (streams ex_data)) \<le> 4
   \<and> remove_at 4 ex_data = (ex_data, [Reply InvalidStreamIndex])
   \<and> (0::int) \<le> 1 \<and> 1 < int (length (streams ex_data))
   \<and> streams (fst (remove_at 1 ex_data)) = [ex_party, ex_bad_date, ex_launch]
   \<and> snd (remove_at 1 ex_data) =
       [Save (fst (remove_at 1 ex_data)), Reply (RemovedStream ex_old)]
   \<and> [''1''] \<noteq> [] \<and> isdigit ([''1''] ! 0)
   \<and> streams (fst (removestream_command ex_lib ex_env [''1''] ex_data)) = [ex_party, ex_launch]"
proof -
  have a: "int (length (streams ex_data)) \<le> 4" "(0::int) \<le> 1" "1 < int (length (streams ex_data))"
    "[''1''] \<noteq> []" "isdigit ([''1''] ! 0)"
    by (simp_all add: ex_data_def py_int_1)
  have b: "streams ex_data ! nat 1 = ex_old"
    "take (nat 1) (streams ex_data) @ drop (Suc (nat 1)) (streams ex_data) =
       [ex_party, ex_bad_date, ex_launch]"
    by (simp_all add: ex_data_def)
  note t1 = remove_at_index [of 4 ex_data "[''1'']" ex_lib ex_env]
  note t2 = remove_at_index [of 1 ex_data "[''1'']" ex_lib ex_env]
  from t1 a have c: "remove_at 4 ex_data = (ex_data, [Reply InvalidStreamIndex])"
    by blast
  from t2 a have d: "streams (fst (remove_at 1 ex_data)) =
        take (nat 1) (streams ex_data) @ drop (Suc (nat 1)) (streams ex_data)"
    and e: "snd (remove_at 1 ex_data) =
        [Save (fst (remove_at 1 ex_data)), Reply (RemovedStream (streams ex_data ! nat 1))]"
    and f: "fst (removestream_command ex_lib ex_env [''1''] ex_data) =
        fst (remove_at (py_int ([''1''] ! 0)) (fst (clean_old_streams ex_lib ex_env 0 ex_data)))"
    by blast+
  from d b have d': "streams (fst (remove_at 1 ex_data)) = [ex_party, ex_bad_date, ex_launch]"
    by simp
  from e b have e': "snd (remove_at 1 ex_data) =
       [Save (fst (remove_at 1 ex_data)), Reply (RemovedStream ex_old)]"
    by simp
  have "streams (fst (remove_at (py_int ([''1''] ! 0))
      (fst (clean_old_streams ex_lib ex_env 0 ex_data)))) = [ex_party, ex_launch]"
    by (simp add: py_int_1 clean_old_streams_def ex_env_simps ex_clean remove_at_def Let_def)
  with f have f': "streams (fst (removestream_command ex_lib ex_env [''1''] ex_data)) =
      [ex_party, ex_launch]"
    by simp
  from a c d' e' f' show ?thesis by blast
qed

section \<open>Setting a timezone\<close>

lemma on_message_settimezone:
  "on_message lib owner ev ex_settimezone bd =
     settimezone_command lib 7 [''Mars/Phobos''] bd"
  by (simp add: on_message_def ex_settimezone_def lower_def lower_char_def Let_def)

text \<open>
  C8. Setting a timezone whose name \<open>pytz.timezone\<close> does not know returns \<open>False\<close>,
  changes nothing in \<open>bot_data\<close> and saves nothing, so every user's preference reads as
  before; the \<open>settimezone\<close> command then replies that the name is invalid.
\<close>

theorem set_user_timezone_unknown_zone:
  "\<not> timezone lib timezone_name \<longrightarrow>
     set_user_timezone lib user_id timezone_name bd = (bd, [], False)
     \<and> get_user_timezone (fst (set_user_timezone lib user_id timezone_name bd)) other_id =
         get_user_timezone bd other_id
     \<and> settimezone_command lib user_id (timezone_name # args) bd =
         (bd, [Reply (InvalidTimezone timezone_name)])"
  by (simp add: set_user_timezone_def settimezone_command_def)

theorem set_user_timezone_unknown_zone_witness:
  "\<not> timezone ex_lib ''Mars/Phobos''
   \<and> set_user_timezone ex_lib 7 ''Mars/Phobos'' ex_data = (ex_data, [], False)
   \<and> get_user_timezone (fst (set_user_timezone ex_lib 7 ''Mars/Phobos'' ex_data)) 7 = ''UTC''
   \<and> on_message ex_lib 1 ex_env ex_settimezone ex_data =
       (ex_data, [Reply (InvalidTimezone ''Mars/Phobos'')])"
proof -
  have a: "\<not> timezone ex_lib ''Mars/Phobos''"
    by (simp add: ex_lib_def)
  have b: "get_user_timezone ex_data 7 = ''UTC''"
    by (simp add: get_user_timezone_def ex_data_def)
  note t = set_user_timezone_unknown_zone [of ex_lib "''Mars/Phobos''" 7 ex_data 7 "[]"]
  from t a have c: "set_user_timezone ex_lib 7 ''Mars/Phobos'' ex_data = (ex_data, [], False)"
    and d: "get_user_timezone (fst (set_user_timezone ex_lib 7 ''Mars/Phobos'' ex_data)) 7 =
        get_user_timezone ex_data 7"
    and e: "settimezone_command ex_lib 7 [''Mars/Phobos''] ex_data =
        (ex_data, [Reply (InvalidTimezone ''Mars/Phobos'')])"
    by blast+
  from d b have d': "get_user_timezone (fst (set_user_timezone ex_lib 7 ''Mars/Phobos'' ex_data)) 7 = ''UTC''"
    by (rule trans)
  from e have e': "on_message ex_lib 1 ex_env ex_settimezone ex_data =
       (ex_data, [Reply (InvalidTimezone ''Mars/Phobos'')])"
    by (simp only: on_message_settimezone)
  from a c d' e' show ?thesis by blast
qed

section \<open>Streams added by the owner localize\<close>

lemma not_malformed_iff:
  "(\<not> malformed lib st) = (strptime lib (datetime st) \<noteq> None \<and> timezone lib (original_timezone st))"
  by (auto simp: malformed_def localize_stream_def split: option.splits)

lemma addstream_streams:
  "streams (fst (addstream_command lib args bd)) = streams bd
   \<or> (streams (fst (addstream_command lib args bd)) =
         streams bd @ [\<lparr>datetime = args ! 0 @ CHR '' '' # args ! 1,
                        original_timezone = args ! 2,
                        description = join_sp (drop 3 args)\<rparr>]
       \<and> \<not> malformed lib \<lparr>datetime = args ! 0 @ CHR '' '' # args ! 1,
                        original_timezone = args ! 2,
                        description = join_sp (drop 3 args)\<rparr>)"
  by (auto simp: addstream_command_def Let_def not_malformed_iff split: option.splits)

lemma addstream_wf:
  "list_all (\<lambda>st. \<not> malformed lib st) (streams bd) \<Longrightarrow>
   list_all (\<lambda>st. \<not> malformed lib st) (streams (fst (addstream_command lib args bd)))"
  using addstream_streams [of lib args bd] by auto

lemma clean_wf:
  "list_all P (streams bd) \<Longrightarrow> list_all P (streams (fst (clean_old_streams_at lib now bd)))"
  by (simp add: streams_clean list_all_iff)

lemma remove_at_wf:
  "list_all P (streams bd) \<Longrightarrow> list_all P (streams (fst (remove_at i bd)))"
  by (auto simp: remove_at_def Let_def list_all_iff dest: in_set_takeD in_set_dropD)

lemma set_user_timezone_streams:
  "streams (fst (set_user_timezone lib u z bd)) = streams bd"
  by (simp add: set_user_timezone_def Let_def)

lemma on_message_wf:
  "list_all (\<lambda>st. \<not> malformed lib st) (streams bd) \<Longrightarrow>
   list_all (\<lambda>st. \<not> malformed lib st) (streams (fst (on_message lib owner ev msg bd)))"
  by (simp add: on_message_def Let_def settimezone_command_def schedule_command_eq
      removestream_command_def liststreams_command_def setannouncechannel_command_def
      clean_old_streams_def clean_wf remove_at_wf addstream_wf set_user_timezone_streams
      case_prod_beta)

lemma announce_streams: "streams (fst (announce lib ev c today bd out)) = streams bd"
  by (simp add: announce_eq split: option.splits)

lemma announcer_wf:
  "list_all P (streams bd) \<Longrightarrow>
   list_all P (streams (fst (daily_schedule_announcer lib ev bd)))"
  by (simp add: announcer_eq Let_def clean_wf announce_streams)

lemma run_events_wf:
  "list_all (\<lambda>st. \<not> malformed lib st) (streams bd) \<Longrightarrow>
   list_all (\<lambda>st. \<not> malformed lib st) (streams (fst (run_events lib owner es bd)))"
proof (induction es arbitrary: bd)
  case Nil
  then show ?case by simp
next
  case (Cons e es)
  show ?case
  proof (cases e)
    case (Trigger ev)
    from Cons.prems have "list_all (\<lambda>st. \<not> malformed lib st)
        (streams (fst (daily_schedule_announcer lib ev bd)))"
      by (rule announcer_wf)
    then show ?thesis
      unfolding Trigger run_events_Trigger fst_conv by (rule Cons.IH)
  next
    case (Incoming ev msg)
    from Cons.prems have "list_all (\<lambda>st. \<not> malformed lib st)
        (streams (fst (on_message lib owner ev msg bd)))"
      by (rule on_message_wf)
    then show ?thesis
      unfolding Incoming run_events_Incoming fst_conv by (rule Cons.IH)
  qed
qed

lemma wf_no_warnings:
  "list_all (\<lambda>st. \<not> malformed lib st) sts \<Longrightarrow>
   cleanup_warnings lib sts = [] \<and> skip_warnings lib wv wt sts = []"
  by (induction sts)
     (auto simp: cleanup_warnings_def skip_warnings_def malformed_def split: sum.splits)


lemma on_message_addstream:
  "on_message lib 1 ev ex_addstream bd =
     addstream_command lib [''2030-01-01'', ''10:00'', ''UTC'', ''New'', ''year''] bd"
  by (simp add: on_message_def ex_addstream_def lower_def lower_char_def Let_def)

lemma ex_addstream_result:
  "addstream_command ex_lib [''2030-01-01'', ''10:00'', ''UTC'', ''New'', ''year''] ex_data_empty =
     (ex_data_empty\<lparr>streams := [ex_new_year]\<rparr>,
      [Save (ex_data_empty\<lparr>streams := [ex_new_year]\<rparr>), Reply (StreamAdded ex_new_year)])"
  by (simp add: addstream_command_def Let_def ex_lib_def ex_new_year_def ex_data_simps)

text \<open>
  C10. The \<open>addstream\<close> command either leaves the list of streams as it is or appends
  one stream whose \<open>datetime\<close> parses and whose zone is known, so the appended stream
  localizes. Hence a store in which every stream localizes stays so under any run of
  triggers and commands, and on such a store neither \<open>clean_old_streams\<close> nor the
  upcoming loop takes its \<open>except\<close> branch: they log no warning. A stream that does not
  localize can come only from the loaded snapshot.
\<close>

theorem addstream_appends_localizable:
  "(streams (fst (addstream_command lib args bd)) = streams bd
     \<or> (\<exists>st. streams (fst (addstream_command lib args bd)) = streams bd @ [st]
           \<and> strptime lib (datetime st) \<noteq> None
           \<and> timezone lib (original_timezone st)
           \<and> \<not> malformed lib st))
   \<and> (list_all (\<lambda>st. \<not> malformed lib st) (streams bd) \<longrightarrow>
        list_all (\<lambda>st. \<not> malformed lib st) (streams (fst (run_events lib owner es bd))))
   \<and> (list_all (\<lambda>st. \<not> malformed lib st) sts \<longrightarrow>
        cleanup_warnings lib sts = []
        \<and> skip_warnings lib on_value_error on_unknown_tz sts = []
        \<and> snd (upcoming_loop lib now on_value_error on_unknown_tz sts) = [])"
proof -
  have a: "streams (fst (addstream_command lib args bd)) = streams bd
     \<or> (\<exists>st. streams (fst (addstream_command lib args bd)) = streams bd @ [st]
           \<and> strptime lib (datetime st) \<noteq> None
           \<and> timezone lib (original_timezone st)
           \<and> \<not> malformed lib st)"
    using addstream_streams [of lib args bd] not_malformed_iff [of lib] by metis
  have b: "list_all (\<lambda>st. \<not> malformed lib st) (streams bd) \<longrightarrow>
        list_all (\<lambda>st. \<not> malformed lib st) (streams (fst (run_events lib owner es bd)))"
    using run_events_wf by blast
  have c: "list_all (\<lambda>st. \<not> malformed lib st) sts \<longrightarrow>
        cleanup_warnings lib sts = []
        \<and> skip_warnings lib on_value_error on_unknown_tz sts = []
        \<and> snd (upcoming_loop lib now on_value_error on_unknown_tz sts) = []"
    using wf_no_warnings [of lib sts on_value_error on_unknown_tz] by (simp add: upcoming_loop_eq)
  from a b c show ?thesis by blast
qed

theorem addstream_appends_localizable_witness:
  "list_all (\<lambda>st. \<not> malformed ex_lib st) (streams ex_data_empty)
   \<and> streams (fst (run_events ex_lib 1 [Incoming ex_env ex_addstream] ex_data_empty)) = [ex_new_year]
   \<and> list_all (\<lambda>st. \<not> malformed ex_lib st)
        (streams (fst (run_events ex_lib 1 [Incoming ex_env ex_addstream] ex_data_empty)))
   \<and> cleanup_warnings ex_lib [ex_new_year] = []
   \<and> snd (upcoming_loop ex_lib 1728000000000000 SkipMalformed SkipUnknownTz [ex_new_year]) = []"
proof -
  have a: "list_all (\<lambda>st. \<not> malformed ex_lib st) (streams ex_data_empty)"
    by (simp add: ex_data_simps)
  have b: "streams (fst (run_events ex_lib 1 [Incoming ex_env ex_addstream] ex_data_empty)) =
      [ex_new_year]"
    by (simp add: run_events_Incoming on_message_addstream ex_addstream_result)
  note t1 = addstream_appends_localizable [of ex_lib "[]" ex_data_empty 1
      "[Incoming ex_env ex_addstream]" "[ex_new_year]" SkipMalformed SkipUnknownTz
      1728000000000000]
  from t1 a have c: "list_all (\<lambda>st. \<not> malformed ex_lib st)
        (streams (fst (run_events ex_lib 1 [Incoming ex_env ex_addstream] ex_data_empty)))"
    by blast
  then have d: "list_all (\<lambda>st. \<not> malformed ex_lib st) [ex_new_year]"
    by (simp only: b)
  from t1 d have e: "cleanup_warnings ex_lib [ex_new_year] = []"
    and f: "snd (upcoming_loop ex_lib 1728000000000000 SkipMalformed SkipUnknownTz [ex_new_year]) = []"
    by blast+
  from a b c e f show ?thesis by blast
qed

end
